theory Spec2Isabelle
  imports
    Complex_Main
    "HOL-Library.Sublist"
    "HOL-Library.Multiset"
    "HOL-Library.Char_ord"
    "HOL-Library.List_Lexorder"
begin

section \<open>Conventions of the embedding\<close>

text \<open>
  The theory embeds the retrieval-and-generation pipeline of the textbook backend
  (\<^verbatim>\<open>backend/app/services\<close>). Python \<^verbatim>\<open>str\<close> values are \<^typ>\<open>string\<close>s whose
  characters stand for code points below 256, so \<^term>\<open>length\<close> is Python's \<^verbatim>\<open>len\<close>.
  Python \<^verbatim>\<open>int\<close> is \<^typ>\<open>int\<close>; \<^verbatim>\<open>float\<close> scores and thresholds are read as the
  \<^typ>\<open>real\<close> numbers they denote. An exception is a value of \<open>py_error\<close> on the left
  of a sum. Logging has no effect on any result and is left out.
\<close>

subsection \<open>Python helpers\<close>

datatype py_error =
    RateLimitError string "real option"
  | APIError string
  | IndexError string
  | RuntimeError string
  | AttributeError string
  | OtherException string

text \<open>\<^verbatim>\<open>str(e)\<close> of an exception: its message.\<close>

fun str_error :: "py_error \<Rightarrow> string" where
  "str_error (RateLimitError m _) = m"
| "str_error (APIError m) = m"
| "str_error (IndexError m) = m"
| "str_error (RuntimeError m) = m"
| "str_error (AttributeError m) = m"
| "str_error (OtherException m) = m"

definition digit_char :: "nat \<Rightarrow> char" where
  "digit_char d = (''0123456789'' ! d)"

text \<open>\<^verbatim>\<open>str(n)\<close> for a non-negative integer: its decimal digits.\<close>

fun str_nat :: "nat \<Rightarrow> string" where
  "str_nat n = (if n < 10 then [digit_char n] else str_nat (n div 10) @ [digit_char (n mod 10)])"

declare str_nat.simps [simp del]

definition str_int :: "int \<Rightarrow> string" where
  "str_int i = (if i < 0 then ''-'' @ str_nat (nat (- i)) else str_nat (nat i))"

text \<open>\<^verbatim>\<open>sep.join(parts)\<close>.\<close>

fun join :: "string \<Rightarrow> string list \<Rightarrow> string" where
  "join sep [] = []"
| "join sep [p] = p"
| "join sep (p # q # ps) = p @ sep @ join sep (q # ps)"

text \<open>\<^verbatim>\<open>x or d\<close> for an optional number: \<^verbatim>\<open>None\<close> and zero give \<^verbatim>\<open>d\<close>.\<close>

fun py_or :: "('a::zero) option \<Rightarrow> 'a \<Rightarrow> 'a" where
  "py_or None d = d"
| "py_or (Some x) d = (if x = 0 then d else x)"

text \<open>\<^verbatim>\<open>xs[:k]\<close>: a negative \<^verbatim>\<open>k\<close> counts from the end of the list.\<close>

definition slice_to :: "'a list \<Rightarrow> int \<Rightarrow> 'a list" where
  "slice_to xs k = (if k < 0 then take (nat (int (length xs) + k)) xs else take (nat k) xs)"

section \<open>Retrieved chunks (\<^verbatim>\<open>retriever_service.py\<close>)\<close>

record RetrievedChunk =
  rc_id :: string
  rc_content :: string
  rc_chapter_id :: string
  rc_title :: string
  rc_section_title :: string
  rc_page_url :: string
  rc_position :: int
  rc_score :: real

record RetrievalResult =
  rr_query :: string
  rr_processed_query :: string
  rr_chunks :: "RetrievedChunk list"
  rr_total_found :: int

section \<open>Context builder (\<^verbatim>\<open>context_builder.py\<close>)\<close>

record BuiltContext =
  context_text :: string
  chunks_used :: "RetrievedChunk list"
  total_tokens_estimate :: int
  truncated :: bool

record ContextBuilder =
  max_tokens :: int
  max_chunks :: int

definition DEFAULT_MAX_TOKENS :: int where "DEFAULT_MAX_TOKENS = 4000"
definition DEFAULT_MAX_CHUNKS :: int where "DEFAULT_MAX_CHUNKS = 10"
definition CHARS_PER_TOKEN_ESTIMATE :: int where "CHARS_PER_TOKEN_ESTIMATE = 4"

definition estimate_tokens :: "string \<Rightarrow> int" where
  "estimate_tokens text = int (length text) div CHARS_PER_TOKEN_ESTIMATE"

definition format_chunk :: "RetrievedChunk \<Rightarrow> int \<Rightarrow> string" where
  "format_chunk chunk index =
     ''[Source '' @ str_int index @ '': '' @ rc_title chunk @ '' - '' @ rc_section_title chunk
       @ '']\<newline>'' @ rc_content chunk @ ''\<newline>''"

definition selected_context :: "string \<Rightarrow> string" where
  "selected_context selected_text = ''[User Selected Text]\<newline>'' @ selected_text @ ''\<newline>\<newline>''"

definition header :: string where
  "header = ''Relevant content from the textbook:\<newline>\<newline>''"

text \<open>
  The \<^verbatim>\<open>for\<close> loop of \<^verbatim>\<open>build_context\<close> over the remaining chunks; the state is
  \<^verbatim>\<open>(context_parts, chunks_used, current_tokens, truncated)\<close>, and each \<^verbatim>\<open>break\<close>
  returns the state with \<^verbatim>\<open>truncated\<close> set.
\<close>

fun build_loop ::
  "ContextBuilder \<Rightarrow> RetrievedChunk list \<Rightarrow> string list \<times> RetrievedChunk list \<times> int \<times> bool
     \<Rightarrow> string list \<times> RetrievedChunk list \<times> int \<times> bool" where
  "build_loop cb [] st = st"
| "build_loop cb (chunk # rest) (parts, used, current_tokens, trunc) =
     (if int (length used) \<ge> max_chunks cb then (parts, used, current_tokens, True)
      else
        let formatted = format_chunk chunk (int (length used) + 1);
            chunk_tokens = estimate_tokens formatted
        in if current_tokens + chunk_tokens > max_tokens cb
           then (parts, used, current_tokens, True)
           else build_loop cb rest
                  (parts @ [formatted], used @ [chunk], current_tokens + chunk_tokens, trunc))"

text \<open>The tokens counted before the first chunk: the selected-text block, if any, and the header.\<close>

definition initial_parts :: "string option \<Rightarrow> string list \<times> int" where
  "initial_parts selected_text =
     (let (parts0, tokens0) =
            (case selected_text of
               None \<Rightarrow> ([], 0)
             | Some s \<Rightarrow>
                 if s = [] then ([], 0)
                 else ([selected_context s], estimate_tokens (selected_context s)))
      in (parts0 @ [header], tokens0 + estimate_tokens header))"

definition build_context ::
  "ContextBuilder \<Rightarrow> RetrievedChunk list \<Rightarrow> string option \<Rightarrow> BuiltContext" where
  "build_context cb chunks selected_text =
     (if chunks = [] then
        \<lparr>context_text = [], chunks_used = [], total_tokens_estimate = 0, truncated = False\<rparr>
      else
        let (parts1, tokens1) = initial_parts selected_text;
            (parts, used, current_tokens, trunc) = build_loop cb chunks (parts1, [], tokens1, False)
        in \<lparr>context_text = join ''\<newline>'' parts, chunks_used = used,
            total_tokens_estimate = current_tokens, truncated = trunc\<rparr>)"

definition build_context_with_priority ::
  "ContextBuilder \<Rightarrow> RetrievedChunk list \<Rightarrow> string option \<Rightarrow> string option \<Rightarrow> BuiltContext" where
  "build_context_with_priority cb chunks priority_chapter_id selected_text =
     (case priority_chapter_id of
        None \<Rightarrow> build_context cb chunks selected_text
      | Some p \<Rightarrow>
          if p = [] then build_context cb chunks selected_text
          else
            let priority_chunks = filter (\<lambda>c. rc_chapter_id c = p) chunks;
                other_chunks = filter (\<lambda>c. rc_chapter_id c \<noteq> p) chunks;
                reordered = priority_chunks @ other_chunks
            in build_context cb reordered selected_text)"

section \<open>Vector retriever (\<^verbatim>\<open>retriever_service.py\<close>)\<close>

text \<open>
  The retriever is built over two injected collaborators, the query processor and the
  vector store. Each is a function of its arguments that returns a value or raises.
  A search hit is the dictionary \<^verbatim>\<open>{"id", "score", "payload"}\<close> that
  \<^verbatim>\<open>QdrantDatabase.search\<close> builds; a payload key that is absent is \<^term>\<open>None\<close>, and so is
  a payload the store did not return.
\<close>

record payload =
  pl_content :: "string option"
  pl_chapter_id :: "string option"
  pl_title :: "string option"
  pl_section_title :: "string option"
  pl_page_url :: "string option"
  pl_position :: "int option"

record search_hit =
  hit_id :: string
  hit_score :: real
  hit_payload :: "payload option"

record ProcessedQuery =
  pq_original_query :: string
  pq_processed_query :: string
  pq_expanded_terms :: "string list"
  pq_embedding :: "real list"

record VectorRetriever =
  vr_qdrant_search :: "real list \<Rightarrow> int \<Rightarrow> real \<Rightarrow> py_error + search_hit list"
  vr_process_query :: "string \<Rightarrow> py_error + ProcessedQuery"
  default_top_k :: int
  default_score_threshold :: real

definition DEFAULT_TOP_K :: int where "DEFAULT_TOP_K = 5"
definition DEFAULT_SCORE_THRESHOLD :: real where "DEFAULT_SCORE_THRESHOLD = 0.5"
definition MAX_TOP_K :: int where "MAX_TOP_K = 20"

text \<open>\<^verbatim>\<open>VectorRetriever(qdrant_db, query_processor)\<close> with the default parameters.\<close>

definition VectorRetriever_init ::
  "(real list \<Rightarrow> int \<Rightarrow> real \<Rightarrow> py_error + search_hit list)
     \<Rightarrow> (string \<Rightarrow> py_error + ProcessedQuery) \<Rightarrow> VectorRetriever" where
  "VectorRetriever_init qdrant_search process_query =
     \<lparr>vr_qdrant_search = qdrant_search, vr_process_query = process_query,
      default_top_k = DEFAULT_TOP_K, default_score_threshold = DEFAULT_SCORE_THRESHOLD\<rparr>"

text \<open>\<^verbatim>\<open>payload.get(key, default)\<close>.\<close>

fun get_or :: "'a option \<Rightarrow> 'a \<Rightarrow> 'a" where
  "get_or None d = d"
| "get_or (Some v) d = v"

text \<open>One iteration of the conversion loop: a hit becomes a \<^verbatim>\<open>RetrievedChunk\<close>.\<close>

definition to_chunk :: "search_hit \<Rightarrow> py_error + RetrievedChunk" where
  "to_chunk result =
     (case hit_payload result of
        None \<Rightarrow> Inl (AttributeError ''NoneType object has no attribute get'')
      | Some payload \<Rightarrow>
          Inr \<lparr>rc_id = hit_id result,
               rc_content = get_or (pl_content payload) '''',
               rc_chapter_id = get_or (pl_chapter_id payload) '''',
               rc_title = get_or (pl_title payload) '''',
               rc_section_title = get_or (pl_section_title payload) '''',
               rc_page_url = get_or (pl_page_url payload) '''',
               rc_position = get_or (pl_position payload) 0,
               rc_score = hit_score result\<rparr>)"

fun to_chunks :: "search_hit list \<Rightarrow> py_error + RetrievedChunk list" where
  "to_chunks [] = Inr []"
| "to_chunks (result # rest) =
     (case to_chunk result of
        Inl e \<Rightarrow> Inl e
      | Inr chunk \<Rightarrow> (case to_chunks rest of Inl e \<Rightarrow> Inl e | Inr chunks \<Rightarrow> Inr (chunk # chunks)))"

text \<open>
  The first two statements of \<^verbatim>\<open>retrieve\<close> and of \<^verbatim>\<open>retrieve_with_embedding\<close>:
  \<^verbatim>\<open>top_k = min(top_k or self.default_top_k, self.MAX_TOP_K)\<close> and
  \<^verbatim>\<open>score_threshold = score_threshold or self.default_score_threshold\<close>.
\<close>

definition effective_top_k :: "VectorRetriever \<Rightarrow> int option \<Rightarrow> int" where
  "effective_top_k rv top_k = min (py_or top_k (default_top_k rv)) MAX_TOP_K"

definition effective_score_threshold :: "VectorRetriever \<Rightarrow> real option \<Rightarrow> real" where
  "effective_score_threshold rv score_threshold = py_or score_threshold (default_score_threshold rv)"

definition retrieve ::
  "VectorRetriever \<Rightarrow> string \<Rightarrow> int option \<Rightarrow> real option \<Rightarrow> py_error + RetrievalResult" where
  "retrieve rv query top_k score_threshold =
     (let top_k' = effective_top_k rv top_k;
          score_threshold' = effective_score_threshold rv score_threshold
      in case vr_process_query rv query of
           Inl e \<Rightarrow> Inl e
         | Inr processed_query \<Rightarrow>
             (case vr_qdrant_search rv (pq_embedding processed_query) top_k' score_threshold' of
                Inl e \<Rightarrow> Inl e
              | Inr search_results \<Rightarrow>
                  (case to_chunks search_results of
                     Inl e \<Rightarrow> Inl e
                   | Inr chunks \<Rightarrow>
                       Inr \<lparr>rr_query = query,
                            rr_processed_query = pq_processed_query processed_query,
                            rr_chunks = chunks,
                            rr_total_found = int (length chunks)\<rparr>)))"

definition retrieve_with_embedding ::
  "VectorRetriever \<Rightarrow> real list \<Rightarrow> int option \<Rightarrow> real option \<Rightarrow> py_error + RetrievedChunk list" where
  "retrieve_with_embedding rv embedding top_k score_threshold =
     (let top_k' = effective_top_k rv top_k;
          score_threshold' = effective_score_threshold rv score_threshold
      in case vr_qdrant_search rv embedding top_k' score_threshold' of
           Inl e \<Rightarrow> Inl e
         | Inr search_results \<Rightarrow> to_chunks search_results)"

definition retrieve_by_chapter ::
  "VectorRetriever \<Rightarrow> string \<Rightarrow> string \<Rightarrow> int option \<Rightarrow> real option \<Rightarrow> py_error + RetrievalResult" where
  "retrieve_by_chapter rv query chapter_id top_k score_threshold =
     (case retrieve rv query (Some (py_or top_k (default_top_k rv) * 3)) score_threshold of
        Inl e \<Rightarrow> Inl e
      | Inr result \<Rightarrow>
          let filtered_chunks = filter (\<lambda>chunk. rc_chapter_id chunk = chapter_id) (rr_chunks result);
              top_k' = py_or top_k (default_top_k rv);
              filtered_chunks' = slice_to filtered_chunks top_k'
          in Inr \<lparr>rr_query = rr_query result,
                  rr_processed_query = rr_processed_query result,
                  rr_chunks = filtered_chunks',
                  rr_total_found = int (length filtered_chunks')\<rparr>)"

text \<open>
  An abbreviation, not a constant: the expression that embeds the query, issues one search
  of the vector store with the given limit and threshold, and converts the hits.
\<close>

abbreviation search_and_convert ::
  "VectorRetriever \<Rightarrow> string \<Rightarrow> int \<Rightarrow> real \<Rightarrow> py_error + RetrievalResult" where
  "search_and_convert rv query limit threshold \<equiv>
     (case vr_process_query rv query of
        Inl e \<Rightarrow> Inl e
      | Inr processed_query \<Rightarrow>
          (case vr_qdrant_search rv (pq_embedding processed_query) limit threshold of
             Inl e \<Rightarrow> Inl e
           | Inr search_results \<Rightarrow>
               (case to_chunks search_results of
                  Inl e \<Rightarrow> Inl e
                | Inr chunks \<Rightarrow>
                    Inr \<lparr>rr_query = query,
                         rr_processed_query = pq_processed_query processed_query,
                         rr_chunks = chunks,
                         rr_total_found = int (length chunks)\<rparr>)))"

section \<open>Response generator (\<^verbatim>\<open>response_generator.py\<close>)\<close>

record Source =
  src_chapter_id :: string
  src_title :: string
  src_section_title :: string
  src_page_url :: string
  src_relevance_score :: real

record GeneratedResponse =
  gr_response :: string
  gr_sources :: "Source list"
  gr_is_fallback :: bool
  gr_query :: string
  gr_selected_text :: "string option"

definition MIN_RELEVANCE_THRESHOLD :: real where "MIN_RELEVANCE_THRESHOLD = 0.7"

definition SYSTEM_PROMPT :: string where
  "SYSTEM_PROMPT =
     ''You are a helpful AI tutor for a Physical AI & Humanoid Robotics textbook. Your role is to answer questions about the textbook content accurately and helpfully.\<newline>\<newline>''
   @ ''Guidelines:\<newline>''
   @ ''1. Base your answers on the provided context from the textbook.\<newline>''
   @ ''2. Always cite your sources by referencing the source numbers (e.g., [Source 1], [Source 2]).\<newline>''
   @ ''3. If the user has selected specific text, prioritize explaining that content.\<newline>''
   @ ''4. Be educational and explain concepts clearly.\<newline>''
   @ ''5. If the context doesn't contain enough information to fully answer the question, acknowledge this and provide what information you can.\<newline>''
   @ ''6. Use technical terms appropriately but explain them when first introduced.\<newline>''
   @ ''7. Be concise but thorough in your explanations.\<newline>\<newline>''
   @ ''Remember: You are helping students learn about Physical AI and Humanoid Robotics. Be encouraging and supportive.''"

definition FALLBACK_PROMPT :: string where
  "FALLBACK_PROMPT =
     ''You are a helpful AI tutor for a Physical AI & Humanoid Robotics textbook. The user has asked a question, but no relevant content was found in the textbook.\<newline>\<newline>''
   @ ''Guidelines:\<newline>''
   @ ''1. Politely acknowledge that you couldn't find specific information in the textbook.\<newline>''
   @ ''2. Suggest related topics from the textbook that might be helpful.\<newline>''
   @ ''3. Offer to help with a rephrased question.\<newline>''
   @ ''4. Be encouraging and supportive.\<newline>\<newline>''
   @ ''Available textbook topics include:\<newline>''
   @ ''- Introduction to Physical AI\<newline>''
   @ ''- Fundamentals of Humanoid Robotics\<newline>''
   @ ''- Sensors and Perception\<newline>''
   @ ''- Motion Planning and Control\<newline>''
   @ ''- Computer Vision for Robotics\<newline>''
   @ ''- Natural Language Interaction\<newline>''
   @ ''- Reinforcement Learning for Robotics\<newline>''
   @ ''- Human-Robot Interaction\<newline>''
   @ ''- Safety and Ethics in Physical AI\<newline>''
   @ ''- Building Your First Robot Project\<newline>''
   @ ''- Industry Applications\<newline>''
   @ ''- Future of Physical AI''"

text \<open>
  The chat client is the injected collaborator: given the request it returns the message
  contents of the response's choices, or raises.
\<close>

record chat_request =
  cr_model :: string
  cr_messages :: "(string \<times> string) list"
  cr_max_tokens :: int
  cr_temperature :: real

record ResponseGenerator =
  rg_model :: string
  rg_max_tokens :: int
  rg_temperature :: real
  rg_client :: "chat_request \<Rightarrow> py_error + string option list"
  rg_context_builder :: ContextBuilder

fun extract_sources_loop :: "RetrievedChunk list \<Rightarrow> string set \<Rightarrow> Source list \<Rightarrow> Source list" where
  "extract_sources_loop [] seen_chapters sources = sources"
| "extract_sources_loop (chunk # rest) seen_chapters sources =
     (let key = rc_chapter_id chunk @ '':'' @ rc_section_title chunk
      in if key \<notin> seen_chapters
         then extract_sources_loop rest (insert key seen_chapters)
                (sources @ [\<lparr>src_chapter_id = rc_chapter_id chunk,
                              src_title = rc_title chunk,
                              src_section_title = rc_section_title chunk,
                              src_page_url = rc_page_url chunk,
                              src_relevance_score = rc_score chunk\<rparr>])
         else extract_sources_loop rest seen_chapters sources)"

definition extract_sources :: "RetrievedChunk list \<Rightarrow> Source list" where
  "extract_sources chunks = extract_sources_loop chunks {} []"

definition has_relevant_results :: "RetrievedChunk list \<Rightarrow> bool" where
  "has_relevant_results chunks =
     (if chunks = [] then False
      else list_ex (\<lambda>chunk. rc_score chunk \<ge> MIN_RELEVANCE_THRESHOLD) chunks)"

definition call_openai :: "ResponseGenerator \<Rightarrow> string \<Rightarrow> string \<Rightarrow> bool \<Rightarrow> py_error + string" where
  "call_openai rg query context is_fallback =
     (let system_prompt = (if is_fallback then FALLBACK_PROMPT else SYSTEM_PROMPT);
          user_message =
            (if is_fallback then
               (if context \<noteq> []
                then ''User selected text: '' @ context @ ''\<newline>\<newline>'' @ ''User question: '' @ query
                else ''User question: '' @ query)
             else context @ ''\<newline>\<newline>User question: '' @ query)
      in case rg_client rg
                \<lparr>cr_model = rg_model rg,
                 cr_messages = [(''system'', system_prompt), (''user'', user_message)],
                 cr_max_tokens = rg_max_tokens rg,
                 cr_temperature = rg_temperature rg\<rparr> of
           Inl e \<Rightarrow> Inl e
         | Inr choices \<Rightarrow>
             (case choices of
                [] \<Rightarrow> Inl (IndexError ''list index out of range'')
              | content # _ \<Rightarrow> Inr (get_or content '''')))"

definition generate_fallback_response ::
  "ResponseGenerator \<Rightarrow> string \<Rightarrow> string option \<Rightarrow> py_error + GeneratedResponse" where
  "generate_fallback_response rg query selected_text =
     (case call_openai rg query (get_or selected_text '''') True of
        Inl e \<Rightarrow> Inl e
      | Inr response_text \<Rightarrow>
          Inr \<lparr>gr_response = response_text, gr_sources = [], gr_is_fallback = True,
               gr_query = query, gr_selected_text = selected_text\<rparr>)"

definition generate_response ::
  "ResponseGenerator \<Rightarrow> string \<Rightarrow> RetrievalResult \<Rightarrow> string option \<Rightarrow> py_error + GeneratedResponse" where
  "generate_response rg query retrieval_result selected_text =
     (let chunks = rr_chunks retrieval_result
      in if \<not> has_relevant_results chunks
         then generate_fallback_response rg query selected_text
         else
           let built_context = build_context (rg_context_builder rg) chunks selected_text
           in case call_openai rg query (context_text built_context) False of
                Inl e \<Rightarrow> Inl e
              | Inr response_text \<Rightarrow>
                  Inr \<lparr>gr_response = response_text,
                       gr_sources = extract_sources (chunks_used built_context),
                       gr_is_fallback = False,
                       gr_query = query,
                       gr_selected_text = selected_text\<rparr>)"

section \<open>Content chunks (\<^verbatim>\<open>content_parser.py\<close>)\<close>

record ContentMetadata =
  md_chapter_id :: string
  md_title :: string
  md_section_title :: string
  md_page_url :: string
  md_sidebar_position :: "int option"

record ContentChunk =
  cc_id :: string
  cc_content :: string
  cc_metadata :: ContentMetadata
  cc_position :: int
  cc_token_count :: int

record ParsedContent =
  pc_raw_content :: string
  pc_text_content :: string
  pc_metadata :: ContentMetadata
  pc_sections :: "(string \<times> string) list"

subsection \<open>Text helpers of the chunker\<close>

text \<open>\<^verbatim>\<open>str.isspace\<close> on one character, which is also the class \<^verbatim>\<open>\s\<close> of \<^verbatim>\<open>re\<close>.\<close>

definition py_isspace :: "char \<Rightarrow> bool" where
  "py_isspace c =
     (let n = (of_char c :: nat)
      in (9 \<le> n \<and> n \<le> 13) \<or> (28 \<le> n \<and> n \<le> 32) \<or> n = 133 \<or> n = 160)"

text \<open>\<^verbatim>\<open>s.strip()\<close>.\<close>

definition strip :: "string \<Rightarrow> string" where
  "strip s = rev (dropWhile py_isspace (rev (dropWhile py_isspace s)))"

text \<open>
  \<^verbatim>\<open>re.split(r"\n\n+", text)\<close>: the text is cut at every maximal run of two or more
  newlines; the second argument is the piece read so far.
\<close>

function split_paragraphs_loop :: "string \<Rightarrow> string \<Rightarrow> string list" where
  "split_paragraphs_loop [] piece = [piece]"
| "split_paragraphs_loop [c] piece = [piece @ [c]]"
| "split_paragraphs_loop (c # d # cs) piece =
     (if c = CHR ''\<newline>'' \<and> d = CHR ''\<newline>''
      then piece # split_paragraphs_loop (dropWhile (\<lambda>x. x = CHR ''\<newline>'') cs) []
      else split_paragraphs_loop (d # cs) (piece @ [c]))"
  by pat_completeness auto
termination
  by (relation "measure (\<lambda>(s, piece). length s)")
     (simp_all add: less_Suc_eq_le le_SucI length_dropWhile_le)

definition split_paragraphs :: "string \<Rightarrow> string list" where
  "split_paragraphs s = split_paragraphs_loop s []"

text \<open>
  \<^verbatim>\<open>re.split(r"(?<=[.!?])\s+", paragraph)\<close>: the paragraph is cut at every run of white
  space that directly follows a full stop, an exclamation mark or a question mark.
\<close>

function split_sentences_loop :: "string \<Rightarrow> string \<Rightarrow> string list" where
  "split_sentences_loop [] piece = [piece]"
| "split_sentences_loop [c] piece = [piece @ [c]]"
| "split_sentences_loop (c # d # cs) piece =
     (if (c = CHR ''.'' \<or> c = CHR ''!'' \<or> c = CHR ''?'') \<and> py_isspace d
      then (piece @ [c]) # split_sentences_loop (dropWhile py_isspace cs) []
      else split_sentences_loop (d # cs) (piece @ [c]))"
  by pat_completeness auto
termination
  by (relation "measure (\<lambda>(s, piece). length s)")
     (simp_all add: less_Suc_eq_le le_SucI length_dropWhile_le)

definition split_sentences :: "string \<Rightarrow> string list" where
  "split_sentences s = split_sentences_loop s []"

subsection \<open>The chunker\<close>

record ContentChunker =
  chunk_size :: int
  chunk_overlap :: int
  min_chunk_size :: int

text \<open>\<^verbatim>\<open>ContentChunker.estimate_tokens\<close>.\<close>

definition chunker_estimate_tokens :: "string \<Rightarrow> int" where
  "chunker_estimate_tokens text = int (length text) div 4"

text \<open>
  The generator \<^verbatim>\<open>_split_large_paragraph\<close> as the list of what it yields; the loop state
  is \<^verbatim>\<open>(current_chunk, current_size)\<close>.
\<close>

fun split_large_paragraph_loop :: "ContentChunker \<Rightarrow> string list \<Rightarrow> string list \<Rightarrow> int \<Rightarrow> string list" where
  "split_large_paragraph_loop ck [] current_chunk current_size =
     (if current_chunk \<noteq> [] then [join '' '' current_chunk] else [])"
| "split_large_paragraph_loop ck (s # rest) current_chunk current_size =
     (let sentence = strip s
      in if sentence = [] then split_large_paragraph_loop ck rest current_chunk current_size
         else
           let sentence_tokens = chunker_estimate_tokens sentence
           in if current_size + sentence_tokens > chunk_size ck \<and> current_chunk \<noteq> []
              then join '' '' current_chunk
                     # split_large_paragraph_loop ck rest [sentence] sentence_tokens
              else split_large_paragraph_loop ck rest (current_chunk @ [sentence])
                     (current_size + sentence_tokens))"

definition split_large_paragraph :: "ContentChunker \<Rightarrow> string \<Rightarrow> string list" where
  "split_large_paragraph ck paragraph =
     split_large_paragraph_loop ck (split_sentences paragraph) [] 0"

text \<open>
  The overlap loop over \<^verbatim>\<open>reversed(current_chunk)\<close>; the state is
  \<^verbatim>\<open>(overlap_chunks, overlap_size)\<close>, and \<^verbatim>\<open>break\<close> returns it.
\<close>

fun overlap_loop :: "ContentChunker \<Rightarrow> string list \<Rightarrow> string list \<Rightarrow> int \<Rightarrow> string list \<times> int" where
  "overlap_loop ck [] overlap_chunks overlap_size = (overlap_chunks, overlap_size)"
| "overlap_loop ck (prev_para # rest) overlap_chunks overlap_size =
     (let prev_size = chunker_estimate_tokens prev_para
      in if overlap_size + prev_size \<le> chunk_overlap ck
         then overlap_loop ck rest (prev_para # overlap_chunks) (overlap_size + prev_size)
         else (overlap_chunks, overlap_size))"

text \<open>The paragraph loop of the generator \<^verbatim>\<open>_split_text\<close>, as the list of what it yields.\<close>

fun split_text_loop :: "ContentChunker \<Rightarrow> string list \<Rightarrow> string list \<Rightarrow> int \<Rightarrow> string list" where
  "split_text_loop ck [] current_chunk current_size =
     (if current_chunk \<noteq> [] then [join ''\<newline>\<newline>'' current_chunk] else [])"
| "split_text_loop ck (p # rest) current_chunk current_size =
     (let para = strip p
      in if para = [] then split_text_loop ck rest current_chunk current_size
         else
           let para_tokens = chunker_estimate_tokens para
           in if para_tokens > chunk_size ck then
                (if current_chunk \<noteq> []
                 then join ''\<newline>\<newline>'' current_chunk
                        # (split_large_paragraph ck para @ split_text_loop ck rest [] 0)
                 else split_large_paragraph ck para
                        @ split_text_loop ck rest current_chunk current_size)
              else if current_size + para_tokens > chunk_size ck \<and> current_chunk \<noteq> [] then
                (case overlap_loop ck (rev current_chunk) [] 0 of
                   (overlap_chunks, overlap_size) \<Rightarrow>
                     join ''\<newline>\<newline>'' current_chunk
                       # split_text_loop ck rest (overlap_chunks @ [para])
                           (overlap_size + para_tokens))
              else split_text_loop ck rest (current_chunk @ [para]) (current_size + para_tokens))"

definition split_text :: "ContentChunker \<Rightarrow> string \<Rightarrow> string list" where
  "split_text ck text =
     (if strip text = [] then [] else split_text_loop ck (split_paragraphs text) [] 0)"

text \<open>
  \<^verbatim>\<open>_generate_chunk_id\<close>. \<^verbatim>\<open>uuid.uuid5\<close> belongs to Python's library; it is a parameter
  here, from the namespace and the name to the text of the UUID.
\<close>

definition chunk_id_namespace :: string where
  "chunk_id_namespace = ''6ba7b810-9dad-11d1-80b4-00c04fd430c8''"

definition generate_chunk_id ::
  "(string \<Rightarrow> string \<Rightarrow> string) \<Rightarrow> string \<Rightarrow> string \<Rightarrow> int \<Rightarrow> string" where
  "generate_chunk_id uuid5 chapter_id section_title position =
     (let namespace = chunk_id_namespace;
          content = chapter_id @ '':'' @ section_title @ '':'' @ str_int position
      in uuid5 namespace content)"

text \<open>
  The inner loop of \<^verbatim>\<open>chunk_content\<close> over the chunk texts of one section; the state is
  \<^verbatim>\<open>(chunks, position)\<close>.
\<close>

fun chunk_section_loop ::
  "(string \<Rightarrow> string \<Rightarrow> string) \<Rightarrow> ContentChunker \<Rightarrow> ParsedContent \<Rightarrow> string \<Rightarrow> ContentMetadata
     \<Rightarrow> string list \<Rightarrow> ContentChunk list \<Rightarrow> int \<Rightarrow> ContentChunk list \<times> int" where
  "chunk_section_loop uuid5 ck parsed_content section_title section_metadata [] chunks position =
     (chunks, position)"
| "chunk_section_loop uuid5 ck parsed_content section_title section_metadata (chunk_text # rest)
     chunks position =
     (let token_count = chunker_estimate_tokens chunk_text
      in if token_count < min_chunk_size ck
         then chunk_section_loop uuid5 ck parsed_content section_title section_metadata rest
                chunks position
         else
           let chunk_id = generate_chunk_id uuid5 (md_chapter_id (pc_metadata parsed_content))
                            section_title position
           in chunk_section_loop uuid5 ck parsed_content section_title section_metadata rest
                (chunks @ [\<lparr>cc_id = chunk_id, cc_content = chunk_text,
                             cc_metadata = section_metadata, cc_position = position,
                             cc_token_count = token_count\<rparr>])
                (position + 1))"

text \<open>The outer loop of \<^verbatim>\<open>chunk_content\<close> over the sections.\<close>

fun chunk_content_loop ::
  "(string \<Rightarrow> string \<Rightarrow> string) \<Rightarrow> ContentChunker \<Rightarrow> ParsedContent \<Rightarrow> (string \<times> string) list
     \<Rightarrow> ContentChunk list \<Rightarrow> int \<Rightarrow> ContentChunk list" where
  "chunk_content_loop uuid5 ck parsed_content [] chunks position = chunks"
| "chunk_content_loop uuid5 ck parsed_content ((section_title, section_content) # rest)
     chunks position =
     (let section_metadata =
            \<lparr>md_chapter_id = md_chapter_id (pc_metadata parsed_content),
             md_title = md_title (pc_metadata parsed_content),
             md_section_title = section_title,
             md_page_url = md_page_url (pc_metadata parsed_content),
             md_sidebar_position = md_sidebar_position (pc_metadata parsed_content)\<rparr>
      in case chunk_section_loop uuid5 ck parsed_content section_title section_metadata
                (split_text ck section_content) chunks position of
           (chunks', position') \<Rightarrow> chunk_content_loop uuid5 ck parsed_content rest chunks' position')"

definition chunk_content ::
  "(string \<Rightarrow> string \<Rightarrow> string) \<Rightarrow> ContentChunker \<Rightarrow> ParsedContent \<Rightarrow> ContentChunk list" where
  "chunk_content uuid5 ck parsed_content =
     chunk_content_loop uuid5 ck parsed_content (pc_sections parsed_content) [] 0"

text \<open>The identifier of a chunk, recomputed from its own section title and position.\<close>

definition id_from_fields :: "(string \<Rightarrow> string \<Rightarrow> string) \<Rightarrow> string \<Rightarrow> ContentChunk \<Rightarrow> string" where
  "id_from_fields uuid5 chapter_id c =
     uuid5 ''6ba7b810-9dad-11d1-80b4-00c04fd430c8''
       (chapter_id @ '':'' @ md_section_title (cc_metadata c) @ '':'' @ str_int (cc_position c))"

section \<open>Embedding service (\<^verbatim>\<open>embedding_service.py\<close>)\<close>

text \<open>
  The calls to the embedding provider happen one after the other and may answer
  differently each time, so the outside world is a state \<open>'w\<close> that every call takes and
  returns. The provider and \<^verbatim>\<open>asyncio.sleep\<close> are the two operations on it.
\<close>

record EmbeddingResult =
  er_text :: string
  er_embedding :: "real list"
  er_token_count :: int

record embeddings_response =
  resp_data :: "real list list"
  resp_prompt_tokens :: int
  resp_total_tokens :: int

record 'w EmbeddingService =
  es_model :: string
  es_embeddings_create :: "string \<Rightarrow> string list \<Rightarrow> 'w \<Rightarrow> (py_error + embeddings_response) \<times> 'w"
  es_sleep :: "real \<Rightarrow> 'w \<Rightarrow> 'w"

definition MAX_BATCH_SIZE :: nat where "MAX_BATCH_SIZE = 100"
definition MAX_TOKENS_PER_BATCH :: nat where "MAX_TOKENS_PER_BATCH = 8000"
definition MAX_RETRIES :: nat where "MAX_RETRIES = 3"
definition INITIAL_RETRY_DELAY :: real where "INITIAL_RETRY_DELAY = 1.0"
definition MAX_RETRY_DELAY :: real where "MAX_RETRY_DELAY = 60.0"

text \<open>The token estimate of \<^verbatim>\<open>_create_batches\<close>: \<^verbatim>\<open>len(text) // 4\<close>.\<close>

definition estimated_tokens :: "string \<Rightarrow> nat" where
  "estimated_tokens text = length text div 4"

text \<open>
  The loop of \<^verbatim>\<open>_create_batches\<close>; the state is
  \<^verbatim>\<open>(batches, current_batch, current_tokens)\<close>. The end of the list is the code after
  the loop, which appends the last batch when it is not empty.
\<close>

fun create_batches_loop ::
  "string list \<Rightarrow> string list list \<Rightarrow> string list \<Rightarrow> nat \<Rightarrow> string list list" where
  "create_batches_loop [] batches current_batch current_tokens =
     (if current_batch \<noteq> [] then batches @ [current_batch] else batches)"
| "create_batches_loop (text # rest) batches current_batch current_tokens =
     (if length current_batch \<ge> MAX_BATCH_SIZE
         \<or> current_tokens + estimated_tokens text > MAX_TOKENS_PER_BATCH
      then create_batches_loop rest
             (if current_batch \<noteq> [] then batches @ [current_batch] else batches)
             [text] (estimated_tokens text)
      else create_batches_loop rest batches (current_batch @ [text])
             (current_tokens + estimated_tokens text))"

definition create_batches :: "string list \<Rightarrow> string list list" where
  "create_batches texts = create_batches_loop texts [] [] 0"

text \<open>
  The loop of \<^verbatim>\<open>_process_batch\<close> over \<^verbatim>\<open>enumerate(texts)\<close>: \<^verbatim>\<open>response.data[i]\<close>
  raises when the provider returned fewer vectors than texts.
\<close>

fun process_batch_loop ::
  "embeddings_response \<Rightarrow> nat \<Rightarrow> string list \<Rightarrow> nat \<Rightarrow> py_error + EmbeddingResult list" where
  "process_batch_loop response n [] i = Inr []"
| "process_batch_loop response n (text # rest) i =
     (if i < length (resp_data response) then
        (case process_batch_loop response n rest (Suc i) of
           Inl e \<Rightarrow> Inl e
         | Inr results \<Rightarrow>
             Inr (\<lparr>er_text = text, er_embedding = resp_data response ! i,
                   er_token_count = resp_prompt_tokens response div int n\<rparr> # results))
      else Inl (IndexError ''list index out of range''))"

definition process_batch ::
  "'w EmbeddingService \<Rightarrow> string list \<Rightarrow> 'w \<Rightarrow> (py_error + EmbeddingResult list) \<times> 'w" where
  "process_batch es texts w =
     (case es_embeddings_create es (es_model es) texts w of
        (Inl e, w') \<Rightarrow> (Inl e, w')
      | (Inr response, w') \<Rightarrow> (process_batch_loop response (length texts) texts 0, w'))"

text \<open>
  The \<^verbatim>\<open>for attempt in range(self.MAX_RETRIES)\<close> loop of \<^verbatim>\<open>_process_batch_with_retry\<close>,
  over the attempts still to come. Only a rate-limit error and an API error are retried, and
  not on the last attempt; the statement after the loop raises.
\<close>

fun retry_loop ::
  "'w EmbeddingService \<Rightarrow> string list \<Rightarrow> nat list \<Rightarrow> real \<Rightarrow> 'w
     \<Rightarrow> (py_error + EmbeddingResult list) \<times> 'w" where
  "retry_loop es texts [] retry_delay w =
     (Inl (RuntimeError ''Unexpected state in retry loop''), w)"
| "retry_loop es texts (attempt # rest) retry_delay w =
     (case process_batch es texts w of
        (Inr results, w') \<Rightarrow> (Inr results, w')
      | (Inl e, w') \<Rightarrow>
          (case e of
             RateLimitError m retry_after \<Rightarrow>
               if attempt = MAX_RETRIES - 1 then (Inl e, w')
               else
                 let wait_time = py_or retry_after retry_delay
                 in retry_loop es texts rest (min (retry_delay * 2) MAX_RETRY_DELAY)
                      (es_sleep es wait_time w')
           | APIError m \<Rightarrow>
               if attempt = MAX_RETRIES - 1 then (Inl e, w')
               else retry_loop es texts rest (min (retry_delay * 2) MAX_RETRY_DELAY)
                      (es_sleep es retry_delay w')
           | _ \<Rightarrow> (Inl e, w')))"

definition process_batch_with_retry ::
  "'w EmbeddingService \<Rightarrow> string list \<Rightarrow> 'w \<Rightarrow> (py_error + EmbeddingResult list) \<times> 'w" where
  "process_batch_with_retry es texts w =
     retry_loop es texts [0..<MAX_RETRIES] INITIAL_RETRY_DELAY w"

fun embed_batches ::
  "'w EmbeddingService \<Rightarrow> string list list \<Rightarrow> EmbeddingResult list \<Rightarrow> 'w
     \<Rightarrow> (py_error + EmbeddingResult list) \<times> 'w" where
  "embed_batches es [] all_results w = (Inr all_results, w)"
| "embed_batches es (batch # rest) all_results w =
     (case process_batch_with_retry es batch w of
        (Inl e, w') \<Rightarrow> (Inl e, w')
      | (Inr batch_results, w') \<Rightarrow> embed_batches es rest (all_results @ batch_results) w')"

definition generate_embeddings ::
  "'w EmbeddingService \<Rightarrow> string list \<Rightarrow> 'w \<Rightarrow> (py_error + EmbeddingResult list) \<times> 'w" where
  "generate_embeddings es texts w =
     (if texts = [] then (Inr [], w)
      else embed_batches es (create_batches texts) [] w)"

section \<open>Indexer (\<^verbatim>\<open>indexer_service.py\<close>)\<close>

record IndexingResult =
  total_chunks :: int
  indexed_chunks :: int
  failed_chunks :: int
  chapters_processed :: "string list"
  errors :: "string list"

text \<open>The metadata dictionary of an indexed chunk, which becomes the payload of its point.\<close>

record chunk_metadata =
  cm_chapter_id :: string
  cm_title :: string
  cm_section_title :: string
  cm_page_url :: string
  cm_position :: int
  cm_token_count :: int
  cm_content :: string

record IndexedChunk =
  ic_id :: string
  ic_content :: string
  ic_embedding :: "real list"
  ic_metadata :: chunk_metadata

record point =
  pt_id :: string
  pt_vector :: "real list"
  pt_payload :: chunk_metadata

text \<open>
  The indexer holds its embedding service and the vector store. The store's client is
  absent while the store is not connected; its \<^verbatim>\<open>upsert\<close> returns the exception it raised,
  if any, and the new state of the world.
\<close>

record 'w QdrantIndexer =
  qi_embedding_service :: "'w EmbeddingService"
  qi_qdrant_client :: "(point list \<Rightarrow> 'w \<Rightarrow> py_error option \<times> 'w) option"

definition UPSERT_BATCH_SIZE :: nat where "UPSERT_BATCH_SIZE = 100"

text \<open>\<^verbatim>\<open>QdrantDatabase.upsert_vectors\<close> (\<^verbatim>\<open>db/qdrant.py\<close>).\<close>

definition upsert_vectors :: "'w QdrantIndexer \<Rightarrow> point list \<Rightarrow> 'w \<Rightarrow> py_error option \<times> 'w" where
  "upsert_vectors ix points w =
     (case qi_qdrant_client ix of
        None \<Rightarrow> (Some (RuntimeError ''Qdrant not connected. Call connect() first.''), w)
      | Some client_upsert \<Rightarrow> client_upsert points w)"

definition upsert_batch :: "'w QdrantIndexer \<Rightarrow> IndexedChunk list \<Rightarrow> 'w \<Rightarrow> py_error option \<times> 'w" where
  "upsert_batch ix chunks w =
     (let points = map (\<lambda>chunk. \<lparr>pt_id = ic_id chunk, pt_vector = ic_embedding chunk,
                                   pt_payload = ic_metadata chunk\<rparr>) chunks
      in upsert_vectors ix points w)"

text \<open>The loop over \<^verbatim>\<open>zip(chunks, embedding_results)\<close> that prepares the indexed chunks.\<close>

definition prepare_indexed_chunks :: "ContentChunk list \<Rightarrow> EmbeddingResult list \<Rightarrow> IndexedChunk list" where
  "prepare_indexed_chunks chunks embedding_results =
     map (\<lambda>(chunk, embedding_result).
            \<lparr>ic_id = cc_id chunk,
             ic_content = cc_content chunk,
             ic_embedding = er_embedding embedding_result,
             ic_metadata =
               \<lparr>cm_chapter_id = md_chapter_id (cc_metadata chunk),
                cm_title = md_title (cc_metadata chunk),
                cm_section_title = md_section_title (cc_metadata chunk),
                cm_page_url = md_page_url (cc_metadata chunk),
                cm_position = cc_position chunk,
                cm_token_count = cc_token_count chunk,
                cm_content = cc_content chunk\<rparr>\<rparr>)
         (zip chunks embedding_results)"

text \<open>
  The upsert loop \<^verbatim>\<open>for i in range(0, len(indexed_chunks), self.UPSERT_BATCH_SIZE)\<close>; the
  state is \<^verbatim>\<open>(indexed_count, failed_count, errors)\<close>. The exception of a batch is caught
  inside the loop body, and the loop goes on with the next \<^verbatim>\<open>i\<close>.
\<close>

function upsert_loop ::
  "'w QdrantIndexer \<Rightarrow> IndexedChunk list \<Rightarrow> nat \<Rightarrow> int \<times> int \<times> string list \<Rightarrow> 'w
     \<Rightarrow> (int \<times> int \<times> string list) \<times> 'w" where
  "upsert_loop ix indexed i (indexed_count, failed_count, errs) w =
     (if i < length indexed then
        let batch = take UPSERT_BATCH_SIZE (drop i indexed)
        in case upsert_batch ix batch w of
             (None, w') \<Rightarrow>
               upsert_loop ix indexed (i + UPSERT_BATCH_SIZE)
                 (indexed_count + int (length batch), failed_count, errs) w'
           | (Some e, w') \<Rightarrow>
               upsert_loop ix indexed (i + UPSERT_BATCH_SIZE)
                 (indexed_count, failed_count + int (length batch),
                  errs @ [''Failed to upsert batch '' @ str_nat (i div UPSERT_BATCH_SIZE + 1)
                           @ '': '' @ str_error e]) w'
      else ((indexed_count, failed_count, errs), w))"
  by pat_completeness auto
termination
  by (relation "measure (\<lambda>(ix, indexed, i, st, w). length indexed - i)")
     (auto simp: UPSERT_BATCH_SIZE_def)

declare upsert_loop.simps [simp del]

definition index_chunks :: "'w QdrantIndexer \<Rightarrow> ContentChunk list \<Rightarrow> 'w \<Rightarrow> IndexingResult \<times> 'w" where
  "index_chunks ix chunks w =
     (if chunks = [] then
        (\<lparr>total_chunks = 0, indexed_chunks = 0, failed_chunks = 0,
          chapters_processed = [], errors = []\<rparr>, w)
      else
        let texts = map cc_content chunks
        in case generate_embeddings (qi_embedding_service ix) texts w of
             (Inl e, w') \<Rightarrow>
               (\<lparr>total_chunks = int (length chunks), indexed_chunks = 0,
                 failed_chunks = int (length chunks), chapters_processed = [],
                 errors = [''Embedding generation failed: '' @ str_error e]\<rparr>, w')
           | (Inr embedding_results, w') \<Rightarrow>
               let chapters = map (\<lambda>(chunk, embedding_result). md_chapter_id (cc_metadata chunk))
                                (zip chunks embedding_results);
                   indexed = prepare_indexed_chunks chunks embedding_results;
                   ((indexed_count, failed_count, errs), w'') =
                      upsert_loop ix indexed 0 (0, 0, []) w'
               in (\<lparr>total_chunks = int (length chunks), indexed_chunks = indexed_count,
                    failed_chunks = failed_count,
                    chapters_processed = sort (remdups chapters),
                    errors = errs\<rparr>, w''))"

text \<open>
  The partial-failure behaviour in the words of the specification, to compare the loop
  with: the indexed chunks cut into consecutive sub-batches of a fixed size, and every
  sub-batch attempted in turn whatever the outcome of the ones before it.
\<close>

function sub_batches :: "nat \<Rightarrow> 'a list \<Rightarrow> 'a list list" where
  "sub_batches n xs = (if n = 0 \<or> xs = [] then [] else take n xs # sub_batches n (drop n xs))"
  by pat_completeness auto
termination
  by (relation "measure (\<lambda>(n, xs). length xs)") auto

declare sub_batches.simps [simp del]

fun attempt_all :: "('b \<Rightarrow> 'w \<Rightarrow> py_error option \<times> 'w) \<Rightarrow> 'b list \<Rightarrow> 'w \<Rightarrow> py_error option list \<times> 'w" where
  "attempt_all f [] w = ([], w)"
| "attempt_all f (b # bs) w =
     (case f b w of
        (outcome, w') \<Rightarrow> (case attempt_all f bs w' of (outcomes, w'') \<Rightarrow> (outcome # outcomes, w'')))"

text \<open>
  What the result reports for a list of sub-batches and their outcomes: the chunks of the
  sub-batches that failed (or, with \<^term>\<open>False\<close>, of those that succeeded), and one message
  for each failed sub-batch, numbered from \<open>k + 1\<close>.
\<close>

fun failure_messages :: "nat \<Rightarrow> py_error option list \<Rightarrow> string list" where
  "failure_messages k [] = []"
| "failure_messages k (None # outcomes) = failure_messages (Suc k) outcomes"
| "failure_messages k (Some e # outcomes) =
     (''Failed to upsert batch '' @ str_nat (k + 1) @ '': '' @ str_error e)
       # failure_messages (Suc k) outcomes"

fun count_chunks :: "bool \<Rightarrow> 'a list list \<Rightarrow> py_error option list \<Rightarrow> int" where
  "count_chunks failed (b # bs) (outcome # outcomes) =
     (if (outcome \<noteq> None) = failed then int (length b) else 0) + count_chunks failed bs outcomes"
| "count_chunks failed _ _ = 0"

section \<open>Example inputs\<close>

definition chunk_A :: RetrievedChunk where
  "chunk_A = \<lparr>rc_id = ''1'', rc_content = ''Robots sense and act.'', rc_chapter_id = ''intro'',
     rc_title = ''Introduction'', rc_section_title = ''Overview'', rc_page_url = ''/intro'',
     rc_position = 0, rc_score = 0.9\<rparr>"

definition chunk_V :: RetrievedChunk where
  "chunk_V = \<lparr>rc_id = ''1'', rc_content = ''Cameras and depth.'', rc_chapter_id = ''V'',
     rc_title = ''Vision'', rc_section_title = ''Sensors'', rc_page_url = ''/vision'',
     rc_position = 0, rc_score = 0.95\<rparr>"

definition chunk_M1 :: RetrievedChunk where
  "chunk_M1 = \<lparr>rc_id = ''2'', rc_content = ''Planning a path.'', rc_chapter_id = ''M'',
     rc_title = ''Motion'', rc_section_title = ''Planning'', rc_page_url = ''/motion'',
     rc_position = 0, rc_score = 0.90\<rparr>"

definition chunk_M2 :: RetrievedChunk where
  "chunk_M2 = \<lparr>rc_id = ''3'', rc_content = ''Following a path.'', rc_chapter_id = ''M'',
     rc_title = ''Motion'', rc_section_title = ''Control'', rc_page_url = ''/motion'',
     rc_position = 1, rc_score = 0.85\<rparr>"

definition answering_client :: "chat_request \<Rightarrow> py_error + string option list" where
  "answering_client request = Inr [Some ''An answer.'']"

definition generator_G :: ResponseGenerator where
  "generator_G = \<lparr>rg_model = ''gpt-4o-mini'', rg_max_tokens = 1024, rg_temperature = 0.7,
     rg_client = answering_client,
     rg_context_builder = \<lparr>max_tokens = 4000, max_chunks = 10\<rparr>\<rparr>"

definition chunk_low :: RetrievedChunk where
  "chunk_low = \<lparr>rc_id = ''9'', rc_content = ''Gears.'', rc_chapter_id = ''mech'',
     rc_title = ''Mechanics'', rc_section_title = ''Gears'', rc_page_url = ''/mech'',
     rc_position = 0, rc_score = 0.65\<rparr>"

definition chunk_P :: RetrievedChunk where
  "chunk_P = \<lparr>rc_id = ''10'', rc_content = ''Time of flight.'', rc_chapter_id = ''sensors'',
     rc_title = ''Sensors'', rc_section_title = ''lidar:basics'', rc_page_url = ''/sensors'',
     rc_position = 0, rc_score = 0.9\<rparr>"

definition chunk_Q :: RetrievedChunk where
  "chunk_Q = \<lparr>rc_id = ''11'', rc_content = ''Point clouds.'', rc_chapter_id = ''sensors:lidar'',
     rc_title = ''Lidar'', rc_section_title = ''basics'', rc_page_url = ''/sensors:lidar'',
     rc_position = 0, rc_score = 0.8\<rparr>"

definition chunk_AS1 :: RetrievedChunk where
  "chunk_AS1 = \<lparr>rc_id = ''21'', rc_content = ''First.'', rc_chapter_id = ''A'',
     rc_title = ''Chapter A'', rc_section_title = ''S'', rc_page_url = ''/A'',
     rc_position = 0, rc_score = 0.9\<rparr>"

definition chunk_AS2 :: RetrievedChunk where
  "chunk_AS2 = \<lparr>rc_id = ''22'', rc_content = ''Second.'', rc_chapter_id = ''A'',
     rc_title = ''Chapter A'', rc_section_title = ''S'', rc_page_url = ''/A'',
     rc_position = 1, rc_score = 0.8\<rparr>"

definition chunk_AT :: RetrievedChunk where
  "chunk_AT = \<lparr>rc_id = ''23'', rc_content = ''Third.'', rc_chapter_id = ''A'',
     rc_title = ''Chapter A'', rc_section_title = ''T'', rc_page_url = ''/A'',
     rc_position = 2, rc_score = 0.7\<rparr>"

definition echo_search :: "real list \<Rightarrow> int \<Rightarrow> real \<Rightarrow> py_error + search_hit list" where
  "echo_search query_vector limit score_threshold =
     Inr [\<lparr>hit_id = ''1'', hit_score = 0.9,
           hit_payload = Some \<lparr>pl_content = Some ''Planning a path.'', pl_chapter_id = Some ''A'',
             pl_title = Some ''Motion'', pl_section_title = Some ''Planning'',
             pl_page_url = Some ''/motion'', pl_position = Some limit\<rparr>\<rparr>]"

definition plain_query :: "string \<Rightarrow> py_error + ProcessedQuery" where
  "plain_query query =
     Inr \<lparr>pq_original_query = query, pq_processed_query = query, pq_expanded_terms = [],
          pq_embedding = [1, 0]\<rparr>"

definition echo_limits_search :: "real list \<Rightarrow> int \<Rightarrow> real \<Rightarrow> py_error + search_hit list" where
  "echo_limits_search query_vector limit score_threshold =
     Inr [\<lparr>hit_id = ''1'', hit_score = score_threshold,
           hit_payload = Some \<lparr>pl_content = Some ''Planning a path.'', pl_chapter_id = Some ''A'',
             pl_title = Some ''Motion'', pl_section_title = Some ''Planning'',
             pl_page_url = Some ''/motion'', pl_position = Some limit\<rparr>\<rparr>]"

definition retriever_tuned :: VectorRetriever where
  "retriever_tuned =
     \<lparr>vr_qdrant_search = echo_limits_search, vr_process_query = plain_query,
      default_top_k = 10, default_score_threshold = 0.75\<rparr>"

definition hit_of :: "string \<Rightarrow> string \<Rightarrow> real \<Rightarrow> search_hit" where
  "hit_of hid chapter score =
     \<lparr>hit_id = hid, hit_score = score,
      hit_payload = Some \<lparr>pl_content = Some ''Text.'', pl_chapter_id = Some chapter,
        pl_title = Some ''Title'', pl_section_title = Some ''Part'',
        pl_page_url = Some ''/page'', pl_position = Some 0\<rparr>\<rparr>"

definition mixed_search :: "real list \<Rightarrow> int \<Rightarrow> real \<Rightarrow> py_error + search_hit list" where
  "mixed_search query_vector limit score_threshold =
     Inr (take (nat limit)
            (filter (\<lambda>h. hit_score h \<ge> score_threshold)
               [hit_of ''1'' ''A'' 0.9, hit_of ''2'' ''B'' 0.8, hit_of ''3'' ''A'' 0.7,
                hit_of ''4'' ''A'' 0.6, hit_of ''5'' ''B'' 0.4]))"

definition mixed_chunk :: "string \<Rightarrow> string \<Rightarrow> real \<Rightarrow> RetrievedChunk" where
  "mixed_chunk hid chapter score =
     \<lparr>rc_id = hid, rc_content = ''Text.'', rc_chapter_id = chapter, rc_title = ''Title'',
      rc_section_title = ''Part'', rc_page_url = ''/page'', rc_position = 0, rc_score = score\<rparr>"


definition steady_embeddings ::
  "string \<Rightarrow> string list \<Rightarrow> nat \<Rightarrow> (py_error + embeddings_response) \<times> nat" where
  "steady_embeddings model texts w =
     (Inr \<lparr>resp_data = map (\<lambda>t. [1, 0]) texts, resp_prompt_tokens = int (length texts),
           resp_total_tokens = int (length texts)\<rparr>, w)"

definition refusing_embeddings ::
  "string \<Rightarrow> string list \<Rightarrow> nat \<Rightarrow> (py_error + embeddings_response) \<times> nat" where
  "refusing_embeddings model texts w = (Inl (OtherException ''connection refused''), w)"

definition flaky_upsert :: "point list \<Rightarrow> nat \<Rightarrow> py_error option \<times> nat" where
  "flaky_upsert points w = (if w = 0 then Some (OtherException ''timeout'') else None, Suc w)"

definition no_sleep :: "real \<Rightarrow> nat \<Rightarrow> nat" where
  "no_sleep seconds w = w"

definition indexer_steady :: "nat QdrantIndexer" where
  "indexer_steady =
     \<lparr>qi_embedding_service = \<lparr>es_model = ''text-embedding-3-small'',
         es_embeddings_create = steady_embeddings, es_sleep = no_sleep\<rparr>,
      qi_qdrant_client = Some flaky_upsert\<rparr>"

definition indexer_refused :: "nat QdrantIndexer" where
  "indexer_refused =
     \<lparr>qi_embedding_service = \<lparr>es_model = ''text-embedding-3-small'',
         es_embeddings_create = refusing_embeddings, es_sleep = no_sleep\<rparr>,
      qi_qdrant_client = Some flaky_upsert\<rparr>"

definition chunk_C :: ContentChunk where
  "chunk_C =
     \<lparr>cc_id = ''c-0'', cc_content = ''Robots sense, plan and act.'',
      cc_metadata = \<lparr>md_chapter_id = ''intro'', md_title = ''Introduction'',
        md_section_title = ''Overview'', md_page_url = ''/intro'', md_sidebar_position = None\<rparr>,
      cc_position = 0, cc_token_count = 6\<rparr>"

definition steady_result :: "string \<Rightarrow> EmbeddingResult" where
  "steady_result t = \<lparr>er_text = t, er_embedding = [1, 0], er_token_count = 1\<rparr>"

definition indexed_C :: IndexedChunk where
  "indexed_C =
     \<lparr>ic_id = ''c-0'', ic_content = ''Robots sense, plan and act.'', ic_embedding = [1, 0],
      ic_metadata = \<lparr>cm_chapter_id = ''intro'', cm_title = ''Introduction'',
        cm_section_title = ''Overview'', cm_page_url = ''/intro'', cm_position = 0,
        cm_token_count = 6, cm_content = ''Robots sense, plan and act.''\<rparr>\<rparr>"


definition tag_uuid5 :: "string \<Rightarrow> string \<Rightarrow> string" where
  "tag_uuid5 namespace name = namespace @ ''#'' @ name"

definition content_D :: ParsedContent where
  "content_D =
     \<lparr>pc_raw_content = ''# Sensors'', pc_text_content = ''Sensors'',
      pc_metadata = \<lparr>md_chapter_id = ''sensors'', md_title = ''Sensors'',
        md_section_title = ''Sensors'', md_page_url = ''/sensors'', md_sidebar_position = Some 3\<rparr>,
      pc_sections = [(''Introduction'', ''Robots sense. They act!\<newline>\<newline>\<newline>Lidar measures range.''),
                     (''Cameras'', ''  ''),
                     (''Depth'', ''Stereo pairs.'')]\<rparr>"

definition content_D' :: ParsedContent where
  "content_D' =
     \<lparr>pc_raw_content = ''# Sensing'', pc_text_content = ''Sensing'',
      pc_metadata = \<lparr>md_chapter_id = ''sensors'', md_title = ''Sensing'',
        md_section_title = ''Sensing'', md_page_url = ''/docs/sensors'', md_sidebar_position = None\<rparr>,
      pc_sections = [(''Introduction'', ''Robots sense. They act!\<newline>\<newline>\<newline>Lidar measures range.''),
                     (''Cameras'', ''  ''),
                     (''Depth'', ''Stereo pairs.'')]\<rparr>"

definition chunker_K :: ContentChunker where
  "chunker_K = \<lparr>chunk_size = 5, chunk_overlap = 2, min_chunk_size = 1\<rparr>"

section \<open>Properties of the context builder\<close>

text \<open>
  The loop only ever extends \<^verbatim>\<open>chunks_used\<close> by a prefix of the chunks it is given, and it
  sets \<^verbatim>\<open>truncated\<close> exactly when it stops before the end of the list.
\<close>

lemma build_loop_shape:
  "build_loop cb chunks (parts, used, cur, trunc) = (parts', used', cur', trunc') \<Longrightarrow>
     \<exists>taken. used' = used @ taken \<and> prefix taken chunks \<and>
       (trunc' \<longleftrightarrow> trunc \<or> taken \<noteq> chunks)"
proof (induction chunks arbitrary: parts used cur trunc)
  case Nil
  then show ?case by simp
next
  case (Cons chunk rest)
  show ?case
  proof (cases "int (length used) \<ge> max_chunks cb
                \<or> cur + estimate_tokens (format_chunk chunk (int (length used) + 1)) > max_tokens cb")
    case True
    with Cons.prems have "used' = used" "trunc'"
      by (auto simp: Let_def split: if_splits)
    then show ?thesis by (intro exI[of _ "[]"]) simp
  next
    case False
    with Cons.prems have
      "build_loop cb rest (parts @ [format_chunk chunk (int (length used) + 1)], used @ [chunk],
         cur + estimate_tokens (format_chunk chunk (int (length used) + 1)), trunc)
       = (parts', used', cur', trunc')"
      by (simp add: Let_def)
    from Cons.IH[OF this] obtain taken where
      t: "used' = (used @ [chunk]) @ taken" "prefix taken rest" "trunc' \<longleftrightarrow> trunc \<or> taken \<noteq> rest"
      by blast
    then show ?thesis by (intro exI[of _ "chunk # taken"]) simp
  qed
qed

lemma build_loop_tokens:
  "build_loop cb chunks (parts, used, cur, trunc) = (parts', used', cur', trunc') \<Longrightarrow>
     cur \<le> max_tokens cb \<Longrightarrow> cur' \<le> max_tokens cb"
proof (induction chunks arbitrary: parts used cur trunc)
  case Nil
  then show ?case by simp
next
  case (Cons chunk rest)
  show ?case
  proof (cases "int (length used) \<ge> max_chunks cb
                \<or> cur + estimate_tokens (format_chunk chunk (int (length used) + 1)) > max_tokens cb")
    case True
    with Cons.prems show ?thesis by (auto simp: Let_def split: if_splits)
  next
    case False
    with Cons.prems have
      "build_loop cb rest (parts @ [format_chunk chunk (int (length used) + 1)], used @ [chunk],
         cur + estimate_tokens (format_chunk chunk (int (length used) + 1)), trunc)
       = (parts', used', cur', trunc')"
      by (simp add: Let_def)
    from Cons.IH[OF this] False show ?thesis by simp
  qed
qed

lemma build_loop_count:
  "build_loop cb chunks (parts, used, cur, trunc) = (parts', used', cur', trunc') \<Longrightarrow>
     int (length used) \<le> max_chunks cb \<Longrightarrow> int (length used') \<le> max_chunks cb"
proof (induction chunks arbitrary: parts used cur trunc)
  case Nil
  then show ?case by simp
next
  case (Cons chunk rest)
  show ?case
  proof (cases "int (length used) \<ge> max_chunks cb
                \<or> cur + estimate_tokens (format_chunk chunk (int (length used) + 1)) > max_tokens cb")
    case True
    with Cons.prems show ?thesis by (auto simp: Let_def split: if_splits)
  next
    case False
    with Cons.prems have
      "build_loop cb rest (parts @ [format_chunk chunk (int (length used) + 1)], used @ [chunk],
         cur + estimate_tokens (format_chunk chunk (int (length used) + 1)), trunc)
       = (parts', used', cur', trunc')"
      by (simp add: Let_def)
    from Cons.IH[OF this] False show ?thesis by simp
  qed
qed

lemma initial_parts_nonneg: "0 \<le> snd (initial_parts selected_text)"
  by (auto simp: initial_parts_def estimate_tokens_def CHARS_PER_TOKEN_ESTIMATE_def header_def
           split: option.splits)

text \<open>
  Claim C10. For the empty chunk list \<^verbatim>\<open>build_context\<close> returns the empty context: no text,
  no chunk, zero tokens and \<^verbatim>\<open>truncated = False\<close>, whatever the selected text is. Neither the
  selected-text block nor the header line is produced.
\<close>

theorem build_context_empty:
  "build_context cb [] selected_text =
     \<lparr>context_text = '''', chunks_used = [], total_tokens_estimate = 0, truncated = False\<rparr>"
  by (simp add: build_context_def)

lemma build_context_nonempty:
  assumes "chunks \<noteq> []"
  obtains parts1 tokens1 parts used cur trunc where
    "initial_parts selected_text = (parts1, tokens1)"
    "build_loop cb chunks (parts1, [], tokens1, False) = (parts, used, cur, trunc)"
    "build_context cb chunks selected_text =
       \<lparr>context_text = join ''\<newline>'' parts, chunks_used = used,
        total_tokens_estimate = cur, truncated = trunc\<rparr>"
proof -
  obtain parts1 tokens1 where ip: "initial_parts selected_text = (parts1, tokens1)"
    by (cases "initial_parts selected_text")
  obtain parts used cur trunc where
    bl: "build_loop cb chunks (parts1, [], tokens1, False) = (parts, used, cur, trunc)"
    by (cases "build_loop cb chunks (parts1, [], tokens1, False)")
  show thesis
    using assms ip bl by (intro that[OF ip bl]) (simp add: build_context_def)
qed

lemma build_context_prefix: "prefix (chunks_used (build_context cb chunks selected_text)) chunks"
proof (cases "chunks = []")
  case True
  then show ?thesis by (simp add: build_context_def)
next
  case False
  then obtain parts1 tokens1 parts used cur trunc where
    bl: "build_loop cb chunks (parts1, [], tokens1, False) = (parts, used, cur, trunc)" and
    bc: "build_context cb chunks selected_text =
       \<lparr>context_text = join ''\<newline>'' parts, chunks_used = used,
        total_tokens_estimate = cur, truncated = trunc\<rparr>"
    by (rule build_context_nonempty)
  from build_loop_shape[OF bl] bc show ?thesis by auto
qed

lemma build_context_truncated:
  "truncated (build_context cb chunks selected_text)
     \<longleftrightarrow> length (chunks_used (build_context cb chunks selected_text)) < length chunks"
proof (cases "chunks = []")
  case True
  then show ?thesis by (simp add: build_context_def)
next
  case False
  then obtain parts1 tokens1 parts used cur trunc where
    bl: "build_loop cb chunks (parts1, [], tokens1, False) = (parts, used, cur, trunc)" and
    bc: "build_context cb chunks selected_text =
       \<lparr>context_text = join ''\<newline>'' parts, chunks_used = used,
        total_tokens_estimate = cur, truncated = trunc\<rparr>"
    by (rule build_context_nonempty)
  from build_loop_shape[OF bl] obtain taken where
    t: "used = taken" "prefix taken chunks" "trunc \<longleftrightarrow> taken \<noteq> chunks"
    by auto
  from t(2) have "taken \<noteq> chunks \<longleftrightarrow> length taken < length chunks"
    by (auto simp: prefix_def)
  with t bc show ?thesis by simp
qed

lemma build_context_tokens:
  assumes "snd (initial_parts selected_text) \<le> max_tokens cb"
  shows "total_tokens_estimate (build_context cb chunks selected_text) \<le> max_tokens cb"
proof (cases "chunks = []")
  case True
  with assms initial_parts_nonneg[of selected_text] show ?thesis
    by (simp add: build_context_def)
next
  case False
  then obtain parts1 tokens1 parts used cur trunc where
    ip: "initial_parts selected_text = (parts1, tokens1)" and
    bl: "build_loop cb chunks (parts1, [], tokens1, False) = (parts, used, cur, trunc)" and
    bc: "build_context cb chunks selected_text =
       \<lparr>context_text = join ''\<newline>'' parts, chunks_used = used,
        total_tokens_estimate = cur, truncated = trunc\<rparr>"
    by (rule build_context_nonempty)
  from assms ip have "tokens1 \<le> max_tokens cb" by simp
  from build_loop_tokens[OF bl this] bc show ?thesis by simp
qed

lemma build_context_count:
  assumes "0 \<le> max_chunks cb"
  shows "int (length (chunks_used (build_context cb chunks selected_text))) \<le> max_chunks cb"
proof (cases "chunks = []")
  case True
  with assms show ?thesis by (simp add: build_context_def)
next
  case False
  then obtain parts1 tokens1 parts used cur trunc where
    bl: "build_loop cb chunks (parts1, [], tokens1, False) = (parts, used, cur, trunc)" and
    bc: "build_context cb chunks selected_text =
       \<lparr>context_text = join ''\<newline>'' parts, chunks_used = used,
        total_tokens_estimate = cur, truncated = trunc\<rparr>"
    by (rule build_context_nonempty)
  from build_loop_count[OF bl] assms bc show ?thesis by simp
qed

text \<open>
  Claim C2, as amended. The token estimate of the built context stays within \<^verbatim>\<open>max_tokens\<close>
  whenever the header and the selected-text block alone fit; the number of chunks used stays
  within \<^verbatim>\<open>max_chunks\<close> whenever that cap is not negative; \<^verbatim>\<open>truncated\<close> holds exactly
  when fewer chunks were used than were offered; and the chunks used are a prefix of the
  chunks offered.
\<close>

theorem build_context_budget:
  "(snd (initial_parts selected_text) \<le> max_tokens cb \<longrightarrow>
      total_tokens_estimate (build_context cb chunks selected_text) \<le> max_tokens cb)
   \<and> (0 \<le> max_chunks cb \<longrightarrow>
      int (length (chunks_used (build_context cb chunks selected_text))) \<le> max_chunks cb)
   \<and> (truncated (build_context cb chunks selected_text)
        \<longleftrightarrow> length (chunks_used (build_context cb chunks selected_text)) < length chunks)
   \<and> prefix (chunks_used (build_context cb chunks selected_text)) chunks"
  using build_context_tokens build_context_count build_context_truncated build_context_prefix
  by blast

text \<open>
  The header is counted before any chunk is looked at and is never dropped: with
  \<^verbatim>\<open>max_tokens = 5\<close> and one candidate chunk the estimate is 9, the header's own.
\<close>

theorem build_context_budget_counterexample:
  "\<not> (total_tokens_estimate (build_context \<lparr>max_tokens = 5, max_chunks = 10\<rparr> [chunk_A] None)
        \<le> max_tokens \<lparr>max_tokens = 5, max_chunks = 10\<rparr>)"
  by (simp add: build_context_def initial_parts_def header_def estimate_tokens_def
        CHARS_PER_TOKEN_ESTIMATE_def format_chunk_def chunk_A_def str_int_def str_nat.simps
        digit_char_def Let_def)

text \<open>The budget theorem at a builder with room for the header and a selected text.\<close>

theorem build_context_budget_witness:
  "total_tokens_estimate
     (build_context \<lparr>max_tokens = 100, max_chunks = 2\<rparr> [chunk_A, chunk_A, chunk_A] (Some ''sensing''))
     \<le> 100
   \<and> int (length (chunks_used
        (build_context \<lparr>max_tokens = 100, max_chunks = 2\<rparr> [chunk_A, chunk_A, chunk_A] (Some ''sensing''))))
     \<le> 2"
  using build_context_budget[of "Some ''sensing''" "\<lparr>max_tokens = 100, max_chunks = 2\<rparr>"
          "[chunk_A, chunk_A, chunk_A]"]
  by (simp add: initial_parts_def header_def selected_context_def estimate_tokens_def
        CHARS_PER_TOKEN_ESTIMATE_def)


lemma prefix_of_partition:
  assumes "prefix used (filter P xs @ filter (\<lambda>x. \<not> P x) xs)"
    and "\<exists>c\<in>set used. \<not> P c"
  shows "prefix (filter P xs) used"
proof -
  from assms(1) consider "prefix used (filter P xs)"
    | us where "used = filter P xs @ us"
    by (auto simp: prefix_append)
  then show ?thesis
  proof cases
    case 1
    then have "set used \<subseteq> set (filter P xs)" by (rule set_mono_prefix)
    with assms(2) show ?thesis by auto
  next
    case 2
    then show ?thesis by simp
  qed
qed

text \<open>
  Claim C8. With a non-empty priority chapter, \<^verbatim>\<open>build_context_with_priority\<close> is
  \<^verbatim>\<open>build_context\<close> on the stable partition of the chunks (those of the priority chapter,
  then all others, each group in its original order; a permutation of the input). The
  chunks used are a prefix of that reordered list, so a chunk of another chapter is used
  only after every chunk of the priority chapter. For three chunks of chapters V, M, M
  and priority M the chunks used are a prefix of M, M, V.
\<close>

theorem build_context_with_priority_partition:
  "p \<noteq> [] \<longrightarrow>
     build_context_with_priority cb chunks (Some p) selected_text
       = build_context cb
           (filter (\<lambda>c. rc_chapter_id c = p) chunks @ filter (\<lambda>c. rc_chapter_id c \<noteq> p) chunks)
           selected_text
     \<and> mset (filter (\<lambda>c. rc_chapter_id c = p) chunks @ filter (\<lambda>c. rc_chapter_id c \<noteq> p) chunks)
         = mset chunks
     \<and> prefix (chunks_used (build_context_with_priority cb chunks (Some p) selected_text))
         (filter (\<lambda>c. rc_chapter_id c = p) chunks @ filter (\<lambda>c. rc_chapter_id c \<noteq> p) chunks)
     \<and> ((\<exists>c \<in> set (chunks_used (build_context_with_priority cb chunks (Some p) selected_text)).
            rc_chapter_id c \<noteq> p)
         \<longrightarrow> prefix (filter (\<lambda>c. rc_chapter_id c = p) chunks)
               (chunks_used (build_context_with_priority cb chunks (Some p) selected_text)))
     \<and> (rc_chapter_id v \<noteq> p \<and> rc_chapter_id m1 = p \<and> rc_chapter_id m2 = p
         \<longrightarrow> prefix (chunks_used (build_context_with_priority cb [v, m1, m2] (Some p) selected_text))
               [m1, m2, v])"
proof (intro impI)
  assume p: "p \<noteq> []"
  let ?P = "\<lambda>c. rc_chapter_id c = p"
  let ?re = "\<lambda>cs. filter ?P cs @ filter (\<lambda>c. rc_chapter_id c \<noteq> p) cs"
  have eq: "build_context_with_priority cb cs (Some p) selected_text
              = build_context cb (?re cs) selected_text" for cs
    using p by (simp add: build_context_with_priority_def)
  have perm: "mset (?re chunks) = mset chunks"
    by simp
  have pre: "prefix (chunks_used (build_context_with_priority cb cs (Some p) selected_text)) (?re cs)"
    for cs
    unfolding eq by (rule build_context_prefix)
  have first: "(\<exists>c \<in> set (chunks_used (build_context_with_priority cb chunks (Some p) selected_text)).
            rc_chapter_id c \<noteq> p)
         \<longrightarrow> prefix (filter ?P chunks)
               (chunks_used (build_context_with_priority cb chunks (Some p) selected_text))"
    using prefix_of_partition[of _ ?P chunks, OF pre[of chunks]] by blast
  have ex: "rc_chapter_id v \<noteq> p \<and> rc_chapter_id m1 = p \<and> rc_chapter_id m2 = p
         \<longrightarrow> prefix (chunks_used (build_context_with_priority cb [v, m1, m2] (Some p) selected_text))
               [m1, m2, v]"
    using pre[of "[v, m1, m2]"] by auto
  from eq[of chunks] perm pre[of chunks] first ex
  show "build_context_with_priority cb chunks (Some p) selected_text
       = build_context cb (?re chunks) selected_text
     \<and> mset (?re chunks) = mset chunks
     \<and> prefix (chunks_used (build_context_with_priority cb chunks (Some p) selected_text)) (?re chunks)
     \<and> ((\<exists>c \<in> set (chunks_used (build_context_with_priority cb chunks (Some p) selected_text)).
            rc_chapter_id c \<noteq> p)
         \<longrightarrow> prefix (filter ?P chunks)
               (chunks_used (build_context_with_priority cb chunks (Some p) selected_text)))
     \<and> (rc_chapter_id v \<noteq> p \<and> rc_chapter_id m1 = p \<and> rc_chapter_id m2 = p
         \<longrightarrow> prefix (chunks_used (build_context_with_priority cb [v, m1, m2] (Some p) selected_text))
               [m1, m2, v])"
    by blast
qed

text \<open>The partition theorem at the three chunks of the example, priority chapter M.\<close>

theorem build_context_with_priority_partition_witness:
  "''M'' \<noteq> []
   \<and> rc_chapter_id chunk_V \<noteq> ''M'' \<and> rc_chapter_id chunk_M1 = ''M'' \<and> rc_chapter_id chunk_M2 = ''M''
   \<and> prefix (chunks_used (build_context_with_priority \<lparr>max_tokens = 4000, max_chunks = 10\<rparr>
                 [chunk_V, chunk_M1, chunk_M2] (Some ''M'') None))
        [chunk_M1, chunk_M2, chunk_V]
   \<and> chunks_used (build_context_with_priority \<lparr>max_tokens = 4000, max_chunks = 10\<rparr>
                 [chunk_V, chunk_M1, chunk_M2] (Some ''M'') None)
       = chunks_used (build_context \<lparr>max_tokens = 4000, max_chunks = 10\<rparr>
                 [chunk_M1, chunk_M2, chunk_V] None)"
proof -
  have h: "rc_chapter_id chunk_V \<noteq> ''M''" "rc_chapter_id chunk_M1 = ''M''"
    "rc_chapter_id chunk_M2 = ''M''"
    by (simp_all add: chunk_V_def chunk_M1_def chunk_M2_def)
  note t = build_context_with_priority_partition[of "''M''"
        "\<lparr>max_tokens = 4000, max_chunks = 10\<rparr>" "[chunk_V, chunk_M1, chunk_M2]" None
        chunk_V chunk_M1 chunk_M2]
  from t h have ex: "prefix (chunks_used (build_context_with_priority
        \<lparr>max_tokens = 4000, max_chunks = 10\<rparr> [chunk_V, chunk_M1, chunk_M2] (Some ''M'') None))
        [chunk_M1, chunk_M2, chunk_V]"
    by blast
  from t have "build_context_with_priority \<lparr>max_tokens = 4000, max_chunks = 10\<rparr>
        [chunk_V, chunk_M1, chunk_M2] (Some ''M'') None
      = build_context \<lparr>max_tokens = 4000, max_chunks = 10\<rparr>
          (filter (\<lambda>c. rc_chapter_id c = ''M'') [chunk_V, chunk_M1, chunk_M2]
           @ filter (\<lambda>c. rc_chapter_id c \<noteq> ''M'') [chunk_V, chunk_M1, chunk_M2]) None"
    by blast
  with h have "build_context_with_priority \<lparr>max_tokens = 4000, max_chunks = 10\<rparr>
        [chunk_V, chunk_M1, chunk_M2] (Some ''M'') None
      = build_context \<lparr>max_tokens = 4000, max_chunks = 10\<rparr> [chunk_M1, chunk_M2, chunk_V] None"
    by simp
  with ex h show ?thesis by simp
qed

section \<open>Properties of the response generator\<close>

lemma has_relevant_results_iff:
  "has_relevant_results chunks \<longleftrightarrow> (\<exists>c \<in> set chunks. rc_score c \<ge> 0.7)"
  by (auto simp: has_relevant_results_def MIN_RELEVANCE_THRESHOLD_def list_ex_iff)

text \<open>
  Claim C1. When no retrieved chunk scores at least 0.7 (the empty list included) and the
  chat call succeeds, \<^verbatim>\<open>generate_response\<close> returns the fallback response: \<^verbatim>\<open>is_fallback\<close>
  true and no sources. When some chunk scores at least 0.7 and the chat call succeeds, it
  returns a response with \<^verbatim>\<open>is_fallback\<close> false. Every response it returns is a fallback
  exactly when no chunk reaches the threshold, and a fallback carries no sources.
\<close>

theorem generate_response_fallback_threshold:
  "((\<forall>c \<in> set (rr_chunks retrieval_result). \<not> rc_score c \<ge> 0.7)
      \<and> call_openai rg query (get_or selected_text '''') True = Inr response_text
      \<longrightarrow> generate_response rg query retrieval_result selected_text
            = Inr \<lparr>gr_response = response_text, gr_sources = [], gr_is_fallback = True,
                   gr_query = query, gr_selected_text = selected_text\<rparr>)
   \<and> ((\<exists>c \<in> set (rr_chunks retrieval_result). rc_score c \<ge> 0.7)
      \<and> call_openai rg query
            (context_text (build_context (rg_context_builder rg) (rr_chunks retrieval_result)
               selected_text)) False = Inr response_text
      \<longrightarrow> (\<exists>r. generate_response rg query retrieval_result selected_text = Inr r
                \<and> gr_is_fallback r = False))
   \<and> (\<forall>r. generate_response rg query retrieval_result selected_text = Inr r
      \<longrightarrow> (gr_is_fallback r \<longleftrightarrow> \<not> (\<exists>c \<in> set (rr_chunks retrieval_result). rc_score c \<ge> 0.7))
          \<and> (gr_is_fallback r \<longrightarrow> gr_sources r = []))"
proof (intro conjI impI allI)
  assume "(\<forall>c \<in> set (rr_chunks retrieval_result). \<not> rc_score c \<ge> 0.7)
      \<and> call_openai rg query (get_or selected_text '''') True = Inr response_text"
  then show "generate_response rg query retrieval_result selected_text
            = Inr \<lparr>gr_response = response_text, gr_sources = [], gr_is_fallback = True,
                   gr_query = query, gr_selected_text = selected_text\<rparr>"
    by (simp add: generate_response_def generate_fallback_response_def has_relevant_results_iff)
next
  assume "(\<exists>c \<in> set (rr_chunks retrieval_result). rc_score c \<ge> 0.7)
      \<and> call_openai rg query
            (context_text (build_context (rg_context_builder rg) (rr_chunks retrieval_result)
               selected_text)) False = Inr response_text"
  then show "\<exists>r. generate_response rg query retrieval_result selected_text = Inr r
                \<and> gr_is_fallback r = False"
    by (auto simp: generate_response_def has_relevant_results_iff Let_def)
next
  fix r
  assume r: "generate_response rg query retrieval_result selected_text = Inr r"
  then show "gr_is_fallback r \<longleftrightarrow> \<not> (\<exists>c \<in> set (rr_chunks retrieval_result). rc_score c \<ge> 0.7)"
    by (auto simp: generate_response_def generate_fallback_response_def has_relevant_results_iff
          Let_def split: if_splits sum.splits)
next
  fix r
  assume r: "generate_response rg query retrieval_result selected_text = Inr r"
    and "gr_is_fallback r"
  then show "gr_sources r = []"
    by (auto simp: generate_response_def generate_fallback_response_def has_relevant_results_iff
          Let_def split: if_splits sum.splits)
qed

lemma call_openai_answering:
  "call_openai generator_G query context is_fallback = Inr ''An answer.''"
  by (simp add: call_openai_def generator_G_def answering_client_def Let_def)

text \<open>
  The threshold theorem at a generator whose chat client answers: one retrieval below the
  threshold, one with a chunk above it.
\<close>

theorem generate_response_fallback_threshold_witness:
  "generate_response generator_G ''What is a gear?''
      \<lparr>rr_query = ''What is a gear?'', rr_processed_query = ''what is a gear?'',
       rr_chunks = [chunk_low], rr_total_found = 1\<rparr> None
     = Inr \<lparr>gr_response = ''An answer.'', gr_sources = [], gr_is_fallback = True,
            gr_query = ''What is a gear?'', gr_selected_text = None\<rparr>
   \<and> (\<exists>r. generate_response generator_G ''What is a robot?''
      \<lparr>rr_query = ''What is a robot?'', rr_processed_query = ''what is a robot?'',
       rr_chunks = [chunk_low, chunk_A], rr_total_found = 2\<rparr> None = Inr r
      \<and> gr_is_fallback r = False)"
proof -
  have low: "\<not> rc_score chunk_low \<ge> 0.7" by (simp add: chunk_low_def)
  have high: "rc_score chunk_A \<ge> 0.7" by (simp add: chunk_A_def)
  have 1: "generate_response generator_G ''What is a gear?''
      \<lparr>rr_query = ''What is a gear?'', rr_processed_query = ''what is a gear?'',
       rr_chunks = [chunk_low], rr_total_found = 1\<rparr> None
     = Inr \<lparr>gr_response = ''An answer.'', gr_sources = [], gr_is_fallback = True,
            gr_query = ''What is a gear?'', gr_selected_text = None\<rparr>"
    using low call_openai_answering
      generate_response_fallback_threshold[of
        "\<lparr>rr_query = ''What is a gear?'', rr_processed_query = ''what is a gear?'',
          rr_chunks = [chunk_low], rr_total_found = 1\<rparr>"
        generator_G "''What is a gear?''" None "''An answer.''"]
    by simp
  have 2: "\<exists>r. generate_response generator_G ''What is a robot?''
      \<lparr>rr_query = ''What is a robot?'', rr_processed_query = ''what is a robot?'',
       rr_chunks = [chunk_low, chunk_A], rr_total_found = 2\<rparr> None = Inr r
      \<and> gr_is_fallback r = False"
    using high call_openai_answering
      generate_response_fallback_threshold[of
        "\<lparr>rr_query = ''What is a robot?'', rr_processed_query = ''what is a robot?'',
          rr_chunks = [chunk_low, chunk_A], rr_total_found = 2\<rparr>"
        generator_G "''What is a robot?''" None "''An answer.''"]
    by simp
  from 1 2 show ?thesis by blast
qed


text \<open>
  Claim C6. The sources of a grounded response are extracted from the chunks the context
  builder used, and the first chunk of a key is the one that is kept. The key, however, is
  the string \<^verbatim>\<open>chapter_id:section_title\<close>, which two different pairs can share: the chunk
  of chapter \<^verbatim>\<open>sensors\<close>, section \<^verbatim>\<open>lidar:basics\<close> and the chunk of chapter
  \<^verbatim>\<open>sensors:lidar\<close>, section \<^verbatim>\<open>basics\<close> have the same key, and only the first of them
  becomes a source.
\<close>

theorem extract_sources_key_collision:
  "extract_sources [chunk_P, chunk_Q]
     = [\<lparr>src_chapter_id = ''sensors'', src_title = ''Sensors'', src_section_title = ''lidar:basics'',
         src_page_url = ''/sensors'', src_relevance_score = 0.9\<rparr>]
   \<and> (rc_chapter_id chunk_P, rc_section_title chunk_P)
       \<noteq> (rc_chapter_id chunk_Q, rc_section_title chunk_Q)"
  by (simp add: extract_sources_def chunk_P_def chunk_Q_def Let_def)

text \<open>
  The example of the specification: chunks (A, S, 0.9), (A, S, 0.8), (A, T, 0.7) give two
  sources, and the source of (A, S) carries the score 0.9.
\<close>

lemma extract_sources_example:
  "extract_sources [chunk_AS1, chunk_AS2, chunk_AT]
     = [\<lparr>src_chapter_id = ''A'', src_title = ''Chapter A'', src_section_title = ''S'',
         src_page_url = ''/A'', src_relevance_score = 0.9\<rparr>,
        \<lparr>src_chapter_id = ''A'', src_title = ''Chapter A'', src_section_title = ''T'',
         src_page_url = ''/A'', src_relevance_score = 0.7\<rparr>]"
  by (simp add: extract_sources_def chunk_AS1_def chunk_AS2_def chunk_AT_def Let_def)


text \<open>A grounded response takes its sources from the chunks the context builder used.\<close>

lemma generate_response_sources_from_chunks_used:
  "generate_response rg query retrieval_result selected_text = Inr r \<Longrightarrow> \<not> gr_is_fallback r \<Longrightarrow>
     gr_sources r
       = extract_sources
           (chunks_used (build_context (rg_context_builder rg) (rr_chunks retrieval_result)
              selected_text))"
  by (auto simp: generate_response_def generate_fallback_response_def Let_def
        split: if_splits sum.splits)

section \<open>Properties of the vector retriever\<close>

lemma py_or_case:
  "py_or x d = (case x of None \<Rightarrow> d | Some v \<Rightarrow> if v = 0 then d else v)"
  by (cases x) simp_all

lemma retrieve_search:
  "retrieve rv query top_k score_threshold
     = search_and_convert rv query
         (min (case top_k of None \<Rightarrow> default_top_k rv
               | Some k \<Rightarrow> if k = 0 then default_top_k rv else k) 20)
         (case score_threshold of None \<Rightarrow> default_score_threshold rv
          | Some t \<Rightarrow> if t = 0 then default_score_threshold rv else t)"
  by (simp add: retrieve_def effective_top_k_def effective_score_threshold_def MAX_TOP_K_def
        py_or_case)

lemma retrieve_with_embedding_search:
  "retrieve_with_embedding rv embedding top_k score_threshold
     = (case vr_qdrant_search rv embedding
               (min (case top_k of None \<Rightarrow> default_top_k rv
                     | Some k \<Rightarrow> if k = 0 then default_top_k rv else k) 20)
               (case score_threshold of None \<Rightarrow> default_score_threshold rv
                | Some t \<Rightarrow> if t = 0 then default_score_threshold rv else t) of
          Inl e \<Rightarrow> Inl e
        | Inr search_results \<Rightarrow> to_chunks search_results)"
  by (simp add: retrieve_with_embedding_def effective_top_k_def effective_score_threshold_def
        MAX_TOP_K_def py_or_case)

lemma init_defaults:
  "default_top_k (VectorRetriever_init qdrant_search process_query) = 5"
  "default_score_threshold (VectorRetriever_init qdrant_search process_query) = 0.5"
  "vr_qdrant_search (VectorRetriever_init qdrant_search process_query) = qdrant_search"
  "vr_process_query (VectorRetriever_init qdrant_search process_query) = process_query"
  by (simp_all add: VectorRetriever_init_def DEFAULT_TOP_K_def DEFAULT_SCORE_THRESHOLD_def)

text \<open>
  Claim C9, as amended. \<^verbatim>\<open>retrieve\<close> and \<^verbatim>\<open>retrieve_with_embedding\<close> issue their one
  search with the limit \<open>L\<close> and the threshold \<open>T\<close> computed as follows: an unspecified or
  zero \<^verbatim>\<open>top_k\<close> is replaced by the retriever's \<^verbatim>\<open>default_top_k\<close>, the result is cut at
  20, and an unspecified or zero \<^verbatim>\<open>score_threshold\<close> is replaced by the retriever's
  \<^verbatim>\<open>default_score_threshold\<close>. So zero is treated as unspecified; when the configured
  defaults are not zero, neither the limit nor the threshold of the search is zero; on a
  retriever built with the default parameters the search is issued with 5 and 0.5; and
  every \<^verbatim>\<open>top_k\<close> above 20 searches with the limit 20.
\<close>

theorem retrieve_falsy_parameters_default:
  "(L = min (case top_k of None \<Rightarrow> default_top_k rv
             | Some k \<Rightarrow> if k = 0 then default_top_k rv else k) 20
      \<and> T = (case score_threshold of None \<Rightarrow> default_score_threshold rv
              | Some t \<Rightarrow> if t = 0 then default_score_threshold rv else t)
    \<longrightarrow> retrieve rv query top_k score_threshold = search_and_convert rv query L T
        \<and> retrieve_with_embedding rv embedding top_k score_threshold
            = (case vr_qdrant_search rv embedding L T of
                 Inl e \<Rightarrow> Inl e
               | Inr search_results \<Rightarrow> to_chunks search_results)
        \<and> (default_top_k rv \<noteq> 0 \<longrightarrow> L \<noteq> 0)
        \<and> (default_score_threshold rv \<noteq> 0 \<longrightarrow> T \<noteq> 0))
   \<and> ((top_k = None \<or> top_k = Some 0) \<and> (score_threshold = None \<or> score_threshold = Some 0)
    \<longrightarrow> retrieve rv query top_k score_threshold
          = search_and_convert rv query (min (default_top_k rv) 20) (default_score_threshold rv)
        \<and> retrieve_with_embedding rv embedding top_k score_threshold
            = (case vr_qdrant_search rv embedding (min (default_top_k rv) 20)
                      (default_score_threshold rv) of
                 Inl e \<Rightarrow> Inl e
               | Inr search_results \<Rightarrow> to_chunks search_results)
        \<and> retrieve (VectorRetriever_init qdrant_search process_query) query top_k score_threshold
            = search_and_convert (VectorRetriever_init qdrant_search process_query) query 5 0.5
        \<and> retrieve_with_embedding (VectorRetriever_init qdrant_search process_query) embedding
              top_k score_threshold
            = (case qdrant_search embedding 5 0.5 of
                 Inl e \<Rightarrow> Inl e
               | Inr search_results \<Rightarrow> to_chunks search_results))
   \<and> (20 < k
      \<and> T' = (case score_threshold of None \<Rightarrow> default_score_threshold rv
               | Some t \<Rightarrow> if t = 0 then default_score_threshold rv else t)
    \<longrightarrow> retrieve rv query (Some k) score_threshold = search_and_convert rv query 20 T'
        \<and> retrieve_with_embedding rv embedding (Some k) score_threshold
            = (case vr_qdrant_search rv embedding 20 T' of
                 Inl e \<Rightarrow> Inl e
               | Inr search_results \<Rightarrow> to_chunks search_results))"
proof (intro conjI impI)
  assume h: "L = min (case top_k of None \<Rightarrow> default_top_k rv
             | Some k \<Rightarrow> if k = 0 then default_top_k rv else k) 20
      \<and> T = (case score_threshold of None \<Rightarrow> default_score_threshold rv
              | Some t \<Rightarrow> if t = 0 then default_score_threshold rv else t)"
  then have L: "L = min (case top_k of None \<Rightarrow> default_top_k rv
             | Some k \<Rightarrow> if k = 0 then default_top_k rv else k) 20"
    and T: "T = (case score_threshold of None \<Rightarrow> default_score_threshold rv
              | Some t \<Rightarrow> if t = 0 then default_score_threshold rv else t)"
    by blast+
  show "retrieve rv query top_k score_threshold = search_and_convert rv query L T"
    unfolding L T by (rule retrieve_search)
  show "retrieve_with_embedding rv embedding top_k score_threshold
            = (case vr_qdrant_search rv embedding L T of
                 Inl e \<Rightarrow> Inl e
               | Inr search_results \<Rightarrow> to_chunks search_results)"
    unfolding L T by (rule retrieve_with_embedding_search)
  show "L \<noteq> 0" if "default_top_k rv \<noteq> 0"
    using that unfolding L by (cases top_k) (auto simp: min_def)
  show "T \<noteq> 0" if "default_score_threshold rv \<noteq> 0"
    using that unfolding T by (cases score_threshold) auto
next
  assume h: "(top_k = None \<or> top_k = Some 0)
               \<and> (score_threshold = None \<or> score_threshold = Some 0)"
  then have a: "(case top_k of None \<Rightarrow> d | Some k \<Rightarrow> if k = 0 then d else k) = d" for d :: int
    by auto
  from h have b: "(case score_threshold of None \<Rightarrow> d | Some t \<Rightarrow> if t = 0 then d else t) = d"
    for d :: real
    by auto
  have m: "min (5::int) 20 = 5" by simp
  show "retrieve rv query top_k score_threshold
          = search_and_convert rv query (min (default_top_k rv) 20) (default_score_threshold rv)"
    unfolding retrieve_search a b ..
  show "retrieve_with_embedding rv embedding top_k score_threshold
            = (case vr_qdrant_search rv embedding (min (default_top_k rv) 20)
                      (default_score_threshold rv) of
                 Inl e \<Rightarrow> Inl e
               | Inr search_results \<Rightarrow> to_chunks search_results)"
    unfolding retrieve_with_embedding_search a b ..
  show "retrieve (VectorRetriever_init qdrant_search process_query) query top_k score_threshold
            = search_and_convert (VectorRetriever_init qdrant_search process_query) query 5 0.5"
    unfolding retrieve_search a b init_defaults m ..
  show "retrieve_with_embedding (VectorRetriever_init qdrant_search process_query) embedding
              top_k score_threshold
            = (case qdrant_search embedding 5 0.5 of
                 Inl e \<Rightarrow> Inl e
               | Inr search_results \<Rightarrow> to_chunks search_results)"
    unfolding retrieve_with_embedding_search a b init_defaults m ..
next
  assume h: "20 < k
      \<and> T' = (case score_threshold of None \<Rightarrow> default_score_threshold rv
               | Some t \<Rightarrow> if t = 0 then default_score_threshold rv else t)"
  then have k: "min (case Some k of None \<Rightarrow> default_top_k rv
             | Some k \<Rightarrow> if k = 0 then default_top_k rv else k) 20 = 20"
    and T: "T' = (case score_threshold of None \<Rightarrow> default_score_threshold rv
               | Some t \<Rightarrow> if t = 0 then default_score_threshold rv else t)"
    by auto
  show "retrieve rv query (Some k) score_threshold = search_and_convert rv query 20 T'"
    unfolding retrieve_search k T ..
  show "retrieve_with_embedding rv embedding (Some k) score_threshold
            = (case vr_qdrant_search rv embedding 20 T' of
                 Inl e \<Rightarrow> Inl e
               | Inr search_results \<Rightarrow> to_chunks search_results)"
    unfolding retrieve_with_embedding_search k T ..
qed

text \<open>
  The values applied are the retriever's own defaults, not always 5 and 0.5. The store of
  this example answers every search with one hit that repeats the limit in its position
  and the threshold in its score; on a retriever built with \<^verbatim>\<open>default_top_k = 10\<close> and
  \<^verbatim>\<open>default_score_threshold = 0.75\<close>, \<^verbatim>\<open>top_k = 0\<close> and \<^verbatim>\<open>score_threshold = 0.0\<close>
  search with 10 and 0.75.
\<close>

theorem retrieve_configured_defaults_counterexample:
  "(case retrieve retriever_tuned ''what is slam'' (Some 0) (Some 0) of
      Inl e \<Rightarrow> []
    | Inr r \<Rightarrow> map rc_position (rr_chunks r)) = [10]
   \<and> (case retrieve retriever_tuned ''what is slam'' (Some 0) (Some 0) of
      Inl e \<Rightarrow> []
    | Inr r \<Rightarrow> map rc_score (rr_chunks r)) = [0.75]
   \<and> (10::int) \<noteq> 5 \<and> (0.75::real) \<noteq> 0.5"
  by (simp add: retrieve_search retriever_tuned_def plain_query_def echo_limits_search_def
        to_chunk_def)

text \<open>
  The parameter theorem on the same store: zero parameters on a retriever built with the
  default parameters search with 5 and 0.5, and \<^verbatim>\<open>top_k = 100\<close> searches with 20.
\<close>

theorem retrieve_falsy_parameters_default_witness:
  "(case retrieve (VectorRetriever_init echo_limits_search plain_query) ''what is slam''
           (Some 0) (Some 0) of
      Inl e \<Rightarrow> []
    | Inr r \<Rightarrow> map rc_position (rr_chunks r)) = [5]
   \<and> (case retrieve (VectorRetriever_init echo_limits_search plain_query) ''what is slam''
           (Some 0) (Some 0) of
      Inl e \<Rightarrow> []
    | Inr r \<Rightarrow> map rc_score (rr_chunks r)) = [0.5]
   \<and> (case retrieve_with_embedding (VectorRetriever_init echo_limits_search plain_query) [1, 0]
           (Some 0) (Some 0) of
      Inl e \<Rightarrow> []
    | Inr chunks \<Rightarrow> map rc_position chunks) = [5]
   \<and> (20::int) < 100
   \<and> (case retrieve retriever_tuned ''what is slam'' (Some 100) None of
      Inl e \<Rightarrow> []
    | Inr r \<Rightarrow> map rc_position (rr_chunks r)) = [20]
   \<and> (case retrieve_with_embedding retriever_tuned [1, 0] (Some 100) None of
      Inl e \<Rightarrow> []
    | Inr chunks \<Rightarrow> map rc_score chunks) = [0.75]"
proof -
  note t1 = retrieve_falsy_parameters_default[where top_k = "Some 0"
      and score_threshold = "Some 0" and qdrant_search = echo_limits_search
      and process_query = plain_query and query = "''what is slam''" and embedding = "[1, 0]",
      THEN conjunct2, THEN conjunct1]
  have h0: "(Some (0::int) = None \<or> Some (0::int) = Some 0)
      \<and> (Some (0::real) = None \<or> Some (0::real) = Some 0)"
    by simp
  note c1 = t1[THEN mp, OF h0]
  have a: "retrieve (VectorRetriever_init echo_limits_search plain_query) ''what is slam''
             (Some 0) (Some 0)
           = search_and_convert (VectorRetriever_init echo_limits_search plain_query)
               ''what is slam'' 5 0.5"
    and b: "retrieve_with_embedding (VectorRetriever_init echo_limits_search plain_query) [1, 0]
             (Some 0) (Some 0)
           = (case echo_limits_search [1, 0] 5 0.5 of
                Inl e \<Rightarrow> Inl e
              | Inr search_results \<Rightarrow> to_chunks search_results)"
    by (rule c1[THEN conjunct2, THEN conjunct2, THEN conjunct1])
       (rule c1[THEN conjunct2, THEN conjunct2, THEN conjunct2])
  note t2 = retrieve_falsy_parameters_default[where rv = retriever_tuned and k = 100
      and score_threshold = None and T' = "0.75" and query = "''what is slam''"
      and embedding = "[1, 0]", THEN conjunct2, THEN conjunct2]
  have h: "(20::int) < 100
      \<and> (0.75::real) = (case None of None \<Rightarrow> default_score_threshold retriever_tuned
               | Some t \<Rightarrow> if t = 0 then default_score_threshold retriever_tuned else t)"
    by (simp add: retriever_tuned_def)
  have c: "retrieve retriever_tuned ''what is slam'' (Some 100) None
           = search_and_convert retriever_tuned ''what is slam'' 20 0.75"
    and d: "retrieve_with_embedding retriever_tuned [1, 0] (Some 100) None
           = (case vr_qdrant_search retriever_tuned [1, 0] 20 0.75 of
                Inl e \<Rightarrow> Inl e
              | Inr search_results \<Rightarrow> to_chunks search_results)"
    by (rule t2[THEN mp, OF h, THEN conjunct1]) (rule t2[THEN mp, OF h, THEN conjunct2])
  show ?thesis
    unfolding a b c d
    by (simp add: init_defaults retriever_tuned_def plain_query_def echo_limits_search_def
          to_chunk_def)
qed

lemma slice_to_length: "0 \<le> k \<Longrightarrow> int (length (slice_to xs k)) \<le> k"
  by (simp add: slice_to_def)

lemma set_slice_to: "set (slice_to xs k) \<subseteq> set xs"
  by (auto simp: slice_to_def dest: in_set_takeD)

lemma overfetch_search:
  "retrieve rv query (Some (py_or top_k (default_top_k rv) * 3)) score_threshold
     = search_and_convert rv query (min (py_or top_k (default_top_k rv) * 3) 20)
         (case score_threshold of None \<Rightarrow> default_score_threshold rv
          | Some t \<Rightarrow> if t = 0 then default_score_threshold rv else t)"
proof -
  have e: "min (case Some (py_or top_k (default_top_k rv) * 3) of None \<Rightarrow> default_top_k rv
             | Some k \<Rightarrow> if k = 0 then default_top_k rv else k) 20
      = min (py_or top_k (default_top_k rv) * 3) 20"
    by (cases top_k) auto
  show ?thesis unfolding retrieve_search e ..
qed

text \<open>
  Claim C5, as amended. With \<^verbatim>\<open>k\<close> the requested \<^verbatim>\<open>top_k\<close> (the default when it is
  unspecified or zero), \<^verbatim>\<open>retrieve_by_chapter\<close> calls \<^verbatim>\<open>retrieve\<close> with \<^verbatim>\<open>3 * k\<close>, and
  the clamp of \<^verbatim>\<open>retrieve\<close> makes the one search of the store a search with the limit
  \<^verbatim>\<open>min (3 * k) 20\<close>. An error is passed on; otherwise the result holds the chunks of the
  requested chapter among the hits, cut by the slice \<^verbatim>\<open>[:k]\<close>, so every returned chunk has
  the requested chapter and, for \<^verbatim>\<open>k\<close> not negative, at most \<^verbatim>\<open>k\<close> chunks are returned.
\<close>

theorem retrieve_by_chapter_filtered:
  "k = (case top_k of None \<Rightarrow> default_top_k rv
        | Some n \<Rightarrow> if n = 0 then default_top_k rv else n)
   \<and> T = (case score_threshold of None \<Rightarrow> default_score_threshold rv
           | Some t \<Rightarrow> if t = 0 then default_score_threshold rv else t)
   \<longrightarrow> retrieve_by_chapter rv query chapter_id top_k score_threshold
         = (case search_and_convert rv query (min (k * 3) 20) T of
              Inl e \<Rightarrow> Inl e
            | Inr result \<Rightarrow>
                Inr \<lparr>rr_query = rr_query result,
                     rr_processed_query = rr_processed_query result,
                     rr_chunks = slice_to (filter (\<lambda>c. rc_chapter_id c = chapter_id)
                                             (rr_chunks result)) k,
                     rr_total_found =
                       int (length (slice_to (filter (\<lambda>c. rc_chapter_id c = chapter_id)
                                                 (rr_chunks result)) k))\<rparr>)
       \<and> retrieve rv query (Some (k * 3)) score_threshold
           = search_and_convert rv query (min (k * 3) 20) T
       \<and> (\<forall>r. retrieve_by_chapter rv query chapter_id top_k score_threshold = Inr r
             \<longrightarrow> (\<forall>c \<in> set (rr_chunks r). rc_chapter_id c = chapter_id)
                 \<and> (0 \<le> k \<longrightarrow> int (length (rr_chunks r)) \<le> k)
                 \<and> rr_total_found r = int (length (rr_chunks r)))"
proof (intro impI)
  assume h: "k = (case top_k of None \<Rightarrow> default_top_k rv
        | Some n \<Rightarrow> if n = 0 then default_top_k rv else n)
   \<and> T = (case score_threshold of None \<Rightarrow> default_score_threshold rv
           | Some t \<Rightarrow> if t = 0 then default_score_threshold rv else t)"
  then have k: "py_or top_k (default_top_k rv) = k"
    and T: "T = (case score_threshold of None \<Rightarrow> default_score_threshold rv
           | Some t \<Rightarrow> if t = 0 then default_score_threshold rv else t)"
    by (simp_all add: py_or_case)
  have r: "retrieve rv query (Some (k * 3)) score_threshold
           = search_and_convert rv query (min (k * 3) 20) T"
    using overfetch_search[of rv query top_k score_threshold] unfolding k T .
  have eq: "retrieve_by_chapter rv query chapter_id top_k score_threshold
         = (case search_and_convert rv query (min (k * 3) 20) T of
              Inl e \<Rightarrow> Inl e
            | Inr result \<Rightarrow>
                Inr \<lparr>rr_query = rr_query result,
                     rr_processed_query = rr_processed_query result,
                     rr_chunks = slice_to (filter (\<lambda>c. rc_chapter_id c = chapter_id)
                                             (rr_chunks result)) k,
                     rr_total_found =
                       int (length (slice_to (filter (\<lambda>c. rc_chapter_id c = chapter_id)
                                                 (rr_chunks result)) k))\<rparr>)"
    unfolding retrieve_by_chapter_def k r Let_def ..
  have props: "(\<forall>c \<in> set (rr_chunks r). rc_chapter_id c = chapter_id)
                 \<and> (0 \<le> k \<longrightarrow> int (length (rr_chunks r)) \<le> k)
                 \<and> rr_total_found r = int (length (rr_chunks r))"
    if "retrieve_by_chapter rv query chapter_id top_k score_threshold = Inr r" for r
  proof -
    show ?thesis
    proof (cases "retrieve rv query (Some (k * 3)) score_threshold")
      case (Inl e)
      with that show ?thesis
        unfolding retrieve_by_chapter_def k by simp
    next
      case (Inr result)
      define cs where
        "cs = slice_to (filter (\<lambda>c. rc_chapter_id c = chapter_id) (rr_chunks result)) k"
      from that Inr have res: "r = \<lparr>rr_query = rr_query result,
                 rr_processed_query = rr_processed_query result,
                 rr_chunks = cs, rr_total_found = int (length cs)\<rparr>"
        unfolding retrieve_by_chapter_def k cs_def by (simp add: Let_def)
      have c: "rr_chunks r = cs" "rr_total_found r = int (length cs)"
        unfolding res by simp_all
      have "set cs \<subseteq> set (filter (\<lambda>c. rc_chapter_id c = chapter_id) (rr_chunks result))"
        unfolding cs_def by (rule set_slice_to)
      then have a: "\<forall>c \<in> set cs. rc_chapter_id c = chapter_id" by auto
      have b: "0 \<le> k \<longrightarrow> int (length cs) \<le> k"
        unfolding cs_def using slice_to_length[of k] by blast
      from a b show ?thesis unfolding c by simp
    qed
  qed
  from eq r props
  show "retrieve_by_chapter rv query chapter_id top_k score_threshold
         = (case search_and_convert rv query (min (k * 3) 20) T of
              Inl e \<Rightarrow> Inl e
            | Inr result \<Rightarrow>
                Inr \<lparr>rr_query = rr_query result,
                     rr_processed_query = rr_processed_query result,
                     rr_chunks = slice_to (filter (\<lambda>c. rc_chapter_id c = chapter_id)
                                             (rr_chunks result)) k,
                     rr_total_found =
                       int (length (slice_to (filter (\<lambda>c. rc_chapter_id c = chapter_id)
                                                 (rr_chunks result)) k))\<rparr>)
       \<and> retrieve rv query (Some (k * 3)) score_threshold
           = search_and_convert rv query (min (k * 3) 20) T
       \<and> (\<forall>r. retrieve_by_chapter rv query chapter_id top_k score_threshold = Inr r
             \<longrightarrow> (\<forall>c \<in> set (rr_chunks r). rc_chapter_id c = chapter_id)
                 \<and> (0 \<le> k \<longrightarrow> int (length (rr_chunks r)) \<le> k)
                 \<and> rr_total_found r = int (length (rr_chunks r)))"
    by (intro conjI allI impI) blast+
qed

lemma retrieve_echo:
  "retrieve (VectorRetriever_init echo_search plain_query) query (Some k) None
     = Inr \<lparr>rr_query = query, rr_processed_query = query,
            rr_chunks = [\<lparr>rc_id = ''1'', rc_content = ''Planning a path.'', rc_chapter_id = ''A'',
               rc_title = ''Motion'', rc_section_title = ''Planning'', rc_page_url = ''/motion'',
               rc_position = effective_top_k (VectorRetriever_init echo_search plain_query) (Some k),
               rc_score = 0.9\<rparr>],
            rr_total_found = 1\<rparr>"
  by (simp add: retrieve_def VectorRetriever_init_def echo_search_def plain_query_def
        to_chunk_def Let_def)

text \<open>
  The store of this example answers every search with one hit of chapter A whose position
  field repeats the limit it was asked for. Asked for \<^verbatim>\<open>top_k = 10\<close>,
  \<^verbatim>\<open>retrieve_by_chapter\<close> searches with the limit 20, not 30.
\<close>

theorem retrieve_by_chapter_overfetch_counterexample:
  "(case retrieve_by_chapter (VectorRetriever_init echo_search plain_query) ''plan a path'' ''A''
           (Some 10) None of
      Inl e \<Rightarrow> []
    | Inr r \<Rightarrow> map rc_position (rr_chunks r)) = [20]
   \<and> (20::int) \<noteq> 3 * 10"
  by (simp add: retrieve_by_chapter_def retrieve_echo Let_def slice_to_def effective_top_k_def
        MAX_TOP_K_def)

lemma search_mixed:
  "search_and_convert (VectorRetriever_init mixed_search plain_query) ''plan a path'' 6 0.5
     = Inr \<lparr>rr_query = ''plan a path'', rr_processed_query = ''plan a path'',
            rr_chunks = [mixed_chunk ''1'' ''A'' 0.9, mixed_chunk ''2'' ''B'' 0.8,
                         mixed_chunk ''3'' ''A'' 0.7, mixed_chunk ''4'' ''A'' 0.6],
            rr_total_found = 4\<rparr>"
  by (simp add: init_defaults plain_query_def mixed_search_def hit_of_def to_chunk_def
        mixed_chunk_def)

text \<open>
  The chapter filter at \<^verbatim>\<open>top_k = 2\<close> on a store of five hits of chapters A, B, A, A, B
  that honours limit and threshold: the search with limit 6 and threshold 0.5 returns the
  first four, three of them of chapter A, and the first two of those are returned.
\<close>

theorem retrieve_by_chapter_filtered_witness:
  "(case retrieve (VectorRetriever_init mixed_search plain_query) ''plan a path'' (Some 6) None of
      Inl e \<Rightarrow> []
    | Inr r \<Rightarrow> map rc_id (rr_chunks r)) = [''1'', ''2'', ''3'', ''4'']
   \<and> (case retrieve_by_chapter (VectorRetriever_init mixed_search plain_query) ''plan a path''
            ''A'' (Some 2) None of
      Inl e \<Rightarrow> []
    | Inr r \<Rightarrow> map rc_id (rr_chunks r)) = [''1'', ''3'']
   \<and> (case retrieve_by_chapter (VectorRetriever_init mixed_search plain_query) ''plan a path''
            ''A'' (Some 2) None of
      Inl e \<Rightarrow> []
    | Inr r \<Rightarrow> map rc_chapter_id (rr_chunks r)) = [''A'', ''A'']
   \<and> (case retrieve_by_chapter (VectorRetriever_init mixed_search plain_query) ''plan a path''
            ''A'' (Some 2) None of
      Inl e \<Rightarrow> 0
    | Inr r \<Rightarrow> int (length (rr_chunks r))) \<le> 2"
proof -
  let ?rv = "VectorRetriever_init mixed_search plain_query"
  let ?A = "\<lambda>c. rc_chapter_id c = ''A''"
  let ?all = "[mixed_chunk ''1'' ''A'' 0.9, mixed_chunk ''2'' ''B'' 0.8,
               mixed_chunk ''3'' ''A'' 0.7, mixed_chunk ''4'' ''A'' 0.6]"
  have h: "(2::int) = (case Some 2 of None \<Rightarrow> default_top_k ?rv
        | Some n \<Rightarrow> if n = 0 then default_top_k ?rv else n)
     \<and> (0.5::real) = (case None of None \<Rightarrow> default_score_threshold ?rv
           | Some t \<Rightarrow> if t = 0 then default_score_threshold ?rv else t)"
    by (simp add: init_defaults)
  note t = retrieve_by_chapter_filtered[where rv = ?rv and top_k = "Some 2" and k = 2
      and score_threshold = None and T = "0.5" and query = "''plan a path''"
      and chapter_id = "''A''", THEN mp, OF h]
  have six: "min ((2::int) * 3) 20 = 6" by simp
  have fetch: "retrieve ?rv ''plan a path'' (Some 6) None
      = Inr \<lparr>rr_query = ''plan a path'', rr_processed_query = ''plan a path'',
             rr_chunks = ?all, rr_total_found = 4\<rparr>"
    using t[THEN conjunct2, THEN conjunct1] unfolding six search_mixed by simp
  have rbc: "retrieve_by_chapter ?rv ''plan a path'' ''A'' (Some 2) None
      = Inr \<lparr>rr_query = ''plan a path'', rr_processed_query = ''plan a path'',
             rr_chunks = [mixed_chunk ''1'' ''A'' 0.9, mixed_chunk ''3'' ''A'' 0.7],
             rr_total_found = 2\<rparr>"
    using t[THEN conjunct1] unfolding six search_mixed
    by (simp add: slice_to_def mixed_chunk_def)
  from t[THEN conjunct2, THEN conjunct2, THEN spec, THEN mp, OF rbc]
  have len: "int (length [mixed_chunk ''1'' ''A'' 0.9, mixed_chunk ''3'' ''A'' 0.7]) \<le> 2"
    by simp
  show ?thesis
    unfolding fetch rbc using len by (simp add: mixed_chunk_def)
qed

section \<open>Properties of the embedding service\<close>

lemma create_batches_loop_concat:
  "concat (create_batches_loop texts batches cur toks) = concat batches @ cur @ texts"
  by (induction texts arbitrary: batches cur toks) auto

lemma create_batches_loop_nonempty:
  "[] \<notin> set batches \<Longrightarrow> [] \<notin> set (create_batches_loop texts batches cur toks)"
  by (induction texts arbitrary: batches cur toks) auto

lemma create_batches_loop_size:
  "\<forall>b \<in> set batches. length b \<le> MAX_BATCH_SIZE \<Longrightarrow> length cur \<le> MAX_BATCH_SIZE \<Longrightarrow>
     \<forall>b \<in> set (create_batches_loop texts batches cur toks). length b \<le> MAX_BATCH_SIZE"
proof (induction texts arbitrary: batches cur toks)
  case Nil
  then show ?case by auto
next
  case (Cons t rest)
  have pos: "Suc 0 \<le> MAX_BATCH_SIZE" by (simp add: MAX_BATCH_SIZE_def)
  show ?case
  proof (cases "length cur \<ge> MAX_BATCH_SIZE \<or> toks + estimated_tokens t > MAX_TOKENS_PER_BATCH")
    case True
    then have eq: "create_batches_loop (t # rest) batches cur toks
        = create_batches_loop rest (if cur \<noteq> [] then batches @ [cur] else batches) [t]
            (estimated_tokens t)"
      by simp
    show ?thesis unfolding eq
      by (rule Cons.IH) (use Cons.prems pos in auto)
  next
    case False
    then have eq: "create_batches_loop (t # rest) batches cur toks
        = create_batches_loop rest batches (cur @ [t]) (toks + estimated_tokens t)"
      by simp
    show ?thesis unfolding eq
      by (rule Cons.IH) (use Cons.prems False in auto)
  qed
qed

lemma create_batches_loop_tokens:
  "\<forall>b \<in> set batches. sum_list (map estimated_tokens b) \<le> MAX_TOKENS_PER_BATCH \<or> length b = 1 \<Longrightarrow>
   toks = sum_list (map estimated_tokens cur) \<Longrightarrow>
   sum_list (map estimated_tokens cur) \<le> MAX_TOKENS_PER_BATCH \<or> length cur = 1 \<Longrightarrow>
     \<forall>b \<in> set (create_batches_loop texts batches cur toks).
        sum_list (map estimated_tokens b) \<le> MAX_TOKENS_PER_BATCH \<or> length b = 1"
proof (induction texts arbitrary: batches cur toks)
  case Nil
  then show ?case by auto
next
  case (Cons t rest)
  show ?case
  proof (cases "length cur \<ge> MAX_BATCH_SIZE \<or> toks + estimated_tokens t > MAX_TOKENS_PER_BATCH")
    case True
    then have eq: "create_batches_loop (t # rest) batches cur toks
        = create_batches_loop rest (if cur \<noteq> [] then batches @ [cur] else batches) [t]
            (estimated_tokens t)"
      by simp
    show ?thesis unfolding eq
      by (rule Cons.IH) (use Cons.prems in auto)
  next
    case False
    then have eq: "create_batches_loop (t # rest) batches cur toks
        = create_batches_loop rest batches (cur @ [t]) (toks + estimated_tokens t)"
      by simp
    show ?thesis unfolding eq
      by (rule Cons.IH) (use Cons.prems False in auto)
  qed
qed

lemma create_batches_loop_greedy:
  fixes Q :: "string list \<Rightarrow> string list \<Rightarrow> bool"
  defines "Q \<equiv> \<lambda>b b'. length b \<ge> MAX_BATCH_SIZE
              \<or> sum_list (map estimated_tokens b) + estimated_tokens (hd b') > MAX_TOKENS_PER_BATCH"
  assumes "successively Q (if cur = [] then batches else batches @ [cur])"
    and "cur = [] \<longrightarrow> batches = []"
    and "toks = sum_list (map estimated_tokens cur)"
  shows "successively Q (create_batches_loop texts batches cur toks)"
  using assms(2-4)
proof (induction texts arbitrary: batches cur toks)
  case Nil
  then show ?case by auto
next
  case (Cons t rest)
  show ?case
  proof (cases "length cur \<ge> MAX_BATCH_SIZE \<or> toks + estimated_tokens t > MAX_TOKENS_PER_BATCH")
    case True
    then have eq: "create_batches_loop (t # rest) batches cur toks
        = create_batches_loop rest (if cur \<noteq> [] then batches @ [cur] else batches) [t]
            (estimated_tokens t)"
      by simp
    have "successively Q ((if cur \<noteq> [] then batches @ [cur] else batches) @ [[t]])"
    proof (cases "cur = []")
      case True
      with Cons.prems show ?thesis by simp
    next
      case False
      have "Q cur [t]" using True Cons.prems(3) by (simp add: Q_def)
      with False Cons.prems(1) show ?thesis
        by (simp add: successively_append_iff)
    qed
    then show ?thesis unfolding eq
      by (intro Cons.IH) simp_all
  next
    case False
    then have eq: "create_batches_loop (t # rest) batches cur toks
        = create_batches_loop rest batches (cur @ [t]) (toks + estimated_tokens t)"
      by simp
    have "successively Q (batches @ [cur @ [t]])"
    proof (cases "cur = []")
      case True
      with Cons.prems show ?thesis by simp
    next
      case nonempty: False
      then have "hd (cur @ [t]) = hd cur" by simp
      then have "Q b (cur @ [t]) = Q b cur" for b by (simp add: Q_def)
      with nonempty Cons.prems(1) show ?thesis
        by (simp add: successively_append_iff)
    qed
    then show ?thesis unfolding eq
      by (intro Cons.IH) (use Cons.prems in simp_all)
  qed
qed

lemma create_batches_loop_fill:
  "\<forall>t \<in> set xs. estimated_tokens t \<le> 80 \<Longrightarrow> length cur + length xs \<le> 100 \<Longrightarrow>
   toks \<le> 80 * length cur \<Longrightarrow>
     create_batches_loop (xs @ rest) batches cur toks
       = create_batches_loop rest batches (cur @ xs) (toks + sum_list (map estimated_tokens xs))"
proof (induction xs arbitrary: cur toks)
  case Nil
  then show ?case by simp
next
  case (Cons t xs)
  from Cons.prems have small: "estimated_tokens t \<le> 80" and len: "length cur < 100" by auto
  with Cons.prems(3) have "toks + estimated_tokens t \<le> 80 * length (cur @ [t])" by simp
  moreover from len have "80 * length (cur @ [t]) \<le> 8000" by simp
  ultimately have fit: "toks + estimated_tokens t \<le> 8000" by linarith
  from len fit have eq: "create_batches_loop ((t # xs) @ rest) batches cur toks
      = create_batches_loop (xs @ rest) batches (cur @ [t]) (toks + estimated_tokens t)"
    by (simp add: MAX_BATCH_SIZE_def MAX_TOKENS_PER_BATCH_def)
  have "create_batches_loop (xs @ rest) batches (cur @ [t]) (toks + estimated_tokens t)
      = create_batches_loop rest batches ((cur @ [t]) @ xs)
          ((toks + estimated_tokens t) + sum_list (map estimated_tokens xs))"
    by (rule Cons.IH) (use Cons.prems small in auto)
  with eq show ?case by (simp add: add.assoc)
qed

lemma create_batches_loop_full:
  "length cur = 100 \<Longrightarrow>
     create_batches_loop (t # rest) batches cur toks
       = create_batches_loop rest (batches @ [cur]) [t] (estimated_tokens t)"
  by (auto simp: MAX_BATCH_SIZE_def)

lemma create_batches_250:
  assumes len: "length texts = 250" and small: "\<forall>t \<in> set texts. estimated_tokens t \<le> 80"
  shows "create_batches texts = [take 100 texts, take 100 (drop 100 texts), drop 200 texts]"
proof -
  define a where "a = take 100 texts"
  define b where "b = take 100 (drop 100 texts)"
  define c where "c = drop 200 texts"
  have split: "texts = a @ b @ c"
    unfolding a_def b_def c_def
    by (metis append_take_drop_id drop_drop numeral_Bit0)
  have la: "length a = 100" and lb: "length b = 100" and lc: "length c = 50"
    using len by (simp_all add: a_def b_def c_def)
  from lb obtain hb tb where b: "b = hb # tb" by (cases b) auto
  from lc obtain hc tc where c: "c = hc # tc" by (cases c) auto
  from small split have sa: "\<forall>t \<in> set a. estimated_tokens t \<le> 80"
    and sb: "\<forall>t \<in> set b. estimated_tokens t \<le> 80"
    and sc: "\<forall>t \<in> set c. estimated_tokens t \<le> 80"
    by auto
  have 1: "create_batches_loop (a @ (b @ c)) [] [] 0
      = create_batches_loop (b @ c) [] ([] @ a) (0 + sum_list (map estimated_tokens a))"
    by (rule create_batches_loop_fill) (use sa la in auto)
  have 2: "create_batches_loop (hb # (tb @ c)) [] a (sum_list (map estimated_tokens a))
      = create_batches_loop (tb @ c) ([] @ [a]) [hb] (estimated_tokens hb)"
    by (rule create_batches_loop_full) (rule la)
  have 3: "create_batches_loop (tb @ c) [a] [hb] (estimated_tokens hb)
      = create_batches_loop c [a] ([hb] @ tb)
          (estimated_tokens hb + sum_list (map estimated_tokens tb))"
    by (rule create_batches_loop_fill) (use sb lb b in auto)
  have 4: "create_batches_loop (hc # tc) [a] b
        (estimated_tokens hb + sum_list (map estimated_tokens tb))
      = create_batches_loop tc ([a] @ [b]) [hc] (estimated_tokens hc)"
    by (rule create_batches_loop_full) (rule lb)
  have 5: "create_batches_loop (tc @ []) [a, b] [hc] (estimated_tokens hc)
      = create_batches_loop [] [a, b] ([hc] @ tc)
          (estimated_tokens hc + sum_list (map estimated_tokens tc))"
    by (rule create_batches_loop_fill) (use sc lc c in auto)
  have "create_batches texts = create_batches_loop (a @ (b @ c)) [] [] 0"
    by (simp add: create_batches_def split)
  also have "\<dots> = create_batches_loop (hb # (tb @ c)) [] a (sum_list (map estimated_tokens a))"
    using 1 b by simp
  also have "\<dots> = create_batches_loop (tb @ c) [a] [hb] (estimated_tokens hb)"
    using 2 by simp
  also have "\<dots> = create_batches_loop (hc # tc) [a] b
        (estimated_tokens hb + sum_list (map estimated_tokens tb))"
    using 3 b c by simp
  also have "\<dots> = create_batches_loop tc [a, b] [hc] (estimated_tokens hc)"
    using 4 by simp
  also have "\<dots> = [a, b, c]"
    using 5 c by simp
  finally show ?thesis by (simp add: a_def b_def c_def)
qed

text \<open>
  Claim C7. \<^verbatim>\<open>_create_batches\<close> cuts the list of texts, in order, into non-empty batches.
  No batch has more than \<^verbatim>\<open>MAX_BATCH_SIZE\<close> texts, and none exceeds the token cap unless
  it is a single text. A batch is closed only where it must be: each batch but the last is
  full, or the first text of the next batch would have taken it over the token cap
  (the estimate of a text is its length divided by 4). For 250 texts of at most 80
  estimated tokens each, so that no 100 of them reach the token cap, the batches are the
  first 100, the next 100 and the last 50.
\<close>

theorem create_batches_partition:
  "concat (create_batches texts) = texts
   \<and> [] \<notin> set (create_batches texts)
   \<and> (\<forall>b \<in> set (create_batches texts).
         length b \<le> MAX_BATCH_SIZE
         \<and> (sum_list (map estimated_tokens b) \<le> MAX_TOKENS_PER_BATCH \<or> length b = 1))
   \<and> successively
        (\<lambda>b b'. length b \<ge> MAX_BATCH_SIZE
            \<or> sum_list (map estimated_tokens b) + estimated_tokens (hd b') > MAX_TOKENS_PER_BATCH)
        (create_batches texts)
   \<and> (length texts = 250 \<and> (\<forall>t \<in> set texts. estimated_tokens t \<le> 80)
        \<longrightarrow> create_batches texts = [take 100 texts, take 100 (drop 100 texts), drop 200 texts]
            \<and> map length (create_batches texts) = [100, 100, 50])"
proof (intro conjI impI ballI)
  show "concat (create_batches texts) = texts"
    by (simp add: create_batches_def create_batches_loop_concat)
  show "[] \<notin> set (create_batches texts)"
    unfolding create_batches_def by (rule create_batches_loop_nonempty) simp
  show "successively
        (\<lambda>b b'. length b \<ge> MAX_BATCH_SIZE
            \<or> sum_list (map estimated_tokens b) + estimated_tokens (hd b') > MAX_TOKENS_PER_BATCH)
        (create_batches texts)"
    unfolding create_batches_def by (rule create_batches_loop_greedy) simp_all
next
  fix b assume b: "b \<in> set (create_batches texts)"
  have "\<forall>b \<in> set (create_batches_loop texts [] [] 0). length b \<le> MAX_BATCH_SIZE"
    by (rule create_batches_loop_size) simp_all
  with b show "length b \<le> MAX_BATCH_SIZE" by (simp add: create_batches_def)
  have "\<forall>b \<in> set (create_batches_loop texts [] [] 0).
          sum_list (map estimated_tokens b) \<le> MAX_TOKENS_PER_BATCH \<or> length b = 1"
    by (rule create_batches_loop_tokens) simp_all
  with b show "sum_list (map estimated_tokens b) \<le> MAX_TOKENS_PER_BATCH \<or> length b = 1"
    by (simp add: create_batches_def)
next
  assume h: "length texts = 250 \<and> (\<forall>t \<in> set texts. estimated_tokens t \<le> 80)"
  then show eq: "create_batches texts = [take 100 texts, take 100 (drop 100 texts), drop 200 texts]"
    by (intro create_batches_250) simp_all
  from h show "map length (create_batches texts) = [100, 100, 50]"
    unfolding eq by simp
qed

text \<open>The batching theorem at 250 copies of a short sentence.\<close>

theorem create_batches_partition_witness:
  "length (replicate 250 ''Robots sense, plan and act.'') = 250
   \<and> estimated_tokens ''Robots sense, plan and act.'' \<le> 80
   \<and> create_batches (replicate 250 ''Robots sense, plan and act.'')
       = [replicate 100 ''Robots sense, plan and act.'', replicate 100 ''Robots sense, plan and act.'',
          replicate 50 ''Robots sense, plan and act.'']
   \<and> map length (create_batches (replicate 250 ''Robots sense, plan and act.'')) = [100, 100, 50]"
proof -
  have h: "length (replicate 250 ''Robots sense, plan and act.'') = 250
     \<and> (\<forall>t \<in> set (replicate 250 ''Robots sense, plan and act.''). estimated_tokens t \<le> 80)"
    by (simp add: estimated_tokens_def)
  from create_batches_partition[of "replicate 250 ''Robots sense, plan and act.''"] h
  have "create_batches (replicate 250 ''Robots sense, plan and act.'')
       = [take 100 (replicate 250 ''Robots sense, plan and act.''),
          take 100 (drop 100 (replicate 250 ''Robots sense, plan and act.'')),
          drop 200 (replicate 250 ''Robots sense, plan and act.'')]
     \<and> map length (create_batches (replicate 250 ''Robots sense, plan and act.'')) = [100, 100, 50]"
    by blast
  moreover have "estimated_tokens ''Robots sense, plan and act.'' \<le> 80"
    by (simp add: estimated_tokens_def)
  ultimately show ?thesis by simp
qed

section \<open>Properties of the indexer\<close>

lemma process_batch_loop_length:
  "process_batch_loop response n texts i = Inr results \<Longrightarrow> length results = length texts"
  by (induction texts arbitrary: i results) (auto split: if_splits sum.splits)

lemma process_batch_length:
  "process_batch es texts w = (Inr results, w') \<Longrightarrow> length results = length texts"
  by (auto simp: process_batch_def split: prod.splits sum.splits dest: process_batch_loop_length)

lemma retry_loop_length:
  "retry_loop es texts attempts retry_delay w = (Inr results, w') \<Longrightarrow>
     length results = length texts"
proof (induction attempts arbitrary: retry_delay w)
  case Nil
  then show ?case by simp
next
  case (Cons attempt rest)
  obtain r w1 where pb: "process_batch es texts w = (r, w1)"
    by (cases "process_batch es texts w")
  show ?case
  proof (cases r)
    case (Inr rs)
    with Cons.prems pb have "rs = results" by simp
    with pb Inr show ?thesis by (auto dest: process_batch_length)
  next
    case (Inl e)
    with Cons.prems pb show ?thesis
      by (cases e) (auto split: if_splits dest: Cons.IH simp: Let_def)
  qed
qed

lemma process_batch_with_retry_length:
  "process_batch_with_retry es texts w = (Inr results, w') \<Longrightarrow> length results = length texts"
  unfolding process_batch_with_retry_def by (rule retry_loop_length)

lemma embed_batches_length:
  "embed_batches es batches all_results w = (Inr results, w') \<Longrightarrow>
     length results = length all_results + length (concat batches)"
proof (induction batches arbitrary: all_results w)
  case Nil
  then show ?case by simp
next
  case (Cons batch rest)
  obtain r w1 where pb: "process_batch_with_retry es batch w = (r, w1)"
    by (cases "process_batch_with_retry es batch w")
  show ?case
  proof (cases r)
    case (Inl e)
    with Cons.prems pb show ?thesis by simp
  next
    case (Inr rs)
    with Cons.prems pb have "embed_batches es rest (all_results @ rs) w1 = (Inr results, w')"
      by simp
    from Cons.IH[OF this] process_batch_with_retry_length[of es batch w rs w1] pb Inr
    show ?thesis by simp
  qed
qed

lemma generate_embeddings_length:
  "generate_embeddings es texts w = (Inr results, w') \<Longrightarrow> length results = length texts"
proof (cases "texts = []")
  case True
  assume "generate_embeddings es texts w = (Inr results, w')"
  with True show ?thesis by (simp add: generate_embeddings_def)
next
  case False
  assume "generate_embeddings es texts w = (Inr results, w')"
  with False have "embed_batches es (create_batches texts) [] w = (Inr results, w')"
    by (simp add: generate_embeddings_def)
  from embed_batches_length[OF this] show ?thesis
    by (simp add: create_batches_def create_batches_loop_concat)
qed

lemma concat_sub_batches: "0 < n \<Longrightarrow> concat (sub_batches n xs) = xs"
proof (induction n xs rule: sub_batches.induct)
  case (1 n xs)
  then show ?case by (subst sub_batches.simps) auto
qed

lemma sub_batches_drop:
  "i < length xs \<Longrightarrow>
     sub_batches UPSERT_BATCH_SIZE (drop i xs)
       = take UPSERT_BATCH_SIZE (drop i xs)
         # sub_batches UPSERT_BATCH_SIZE (drop (i + UPSERT_BATCH_SIZE) xs)"
  by (subst sub_batches.simps) (simp add: UPSERT_BATCH_SIZE_def add.commute)

lemma sub_batches_done: "\<not> i < length xs \<Longrightarrow> sub_batches n (drop i xs) = []"
  by (subst sub_batches.simps) simp

lemma upsert_loop_attempt_all:
  "attempt_all (upsert_batch ix) (sub_batches UPSERT_BATCH_SIZE (drop i indexed)) w = (outcomes, w') \<Longrightarrow>
     upsert_loop ix indexed i (indexed_count, failed_count, errs) w
       = ((indexed_count
             + count_chunks False (sub_batches UPSERT_BATCH_SIZE (drop i indexed)) outcomes,
           failed_count
             + count_chunks True (sub_batches UPSERT_BATCH_SIZE (drop i indexed)) outcomes,
           errs @ failure_messages (i div UPSERT_BATCH_SIZE) outcomes), w')"
proof (induction "length indexed - i" arbitrary: i indexed_count failed_count errs w outcomes w'
        rule: less_induct)
  case less
  show ?case
  proof (cases "i < length indexed")
    case False
    then have "sub_batches UPSERT_BATCH_SIZE (drop i indexed) = []"
      by (rule sub_batches_done)
    with less.prems have "outcomes = []" "w' = w" "sub_batches UPSERT_BATCH_SIZE (drop i indexed) = []"
      by simp_all
    with False show ?thesis
      by (subst upsert_loop.simps) simp
  next
    case True
    let ?batch = "take UPSERT_BATCH_SIZE (drop i indexed)"
    let ?rest = "sub_batches UPSERT_BATCH_SIZE (drop (i + UPSERT_BATCH_SIZE) indexed)"
    obtain outcome w1 where ub: "upsert_batch ix ?batch w = (outcome, w1)"
      by (cases "upsert_batch ix ?batch w")
    obtain os w2 where rest: "attempt_all (upsert_batch ix) ?rest w1 = (os, w2)"
      by (cases "attempt_all (upsert_batch ix) ?rest w1")
    from less.prems ub rest True have out: "outcomes = outcome # os" "w' = w2"
      by (simp_all add: sub_batches_drop)
    have smaller: "length indexed - (i + UPSERT_BATCH_SIZE) < length indexed - i"
      using True by (simp add: UPSERT_BATCH_SIZE_def)
    have dv: "(i + UPSERT_BATCH_SIZE) div UPSERT_BATCH_SIZE = Suc (i div UPSERT_BATCH_SIZE)"
      by (simp add: UPSERT_BATCH_SIZE_def)
    note IH = less.hyps[OF smaller rest, unfolded dv]
    show ?thesis
    proof (cases outcome)
      case None
      with True ub show ?thesis
        by (subst upsert_loop.simps) (simp add: IH out sub_batches_drop Let_def)
    next
      case (Some e)
      with True ub show ?thesis
        by (subst upsert_loop.simps) (simp add: IH out sub_batches_drop Let_def)
    qed
  qed
qed

lemma attempt_all_length: "attempt_all f bs w = (outcomes, w') \<Longrightarrow> length outcomes = length bs"
  by (induction bs arbitrary: w outcomes) (auto split: prod.splits)

lemma count_chunks_total:
  "length outcomes = length bs \<Longrightarrow>
     count_chunks False bs outcomes + count_chunks True bs outcomes = int (length (concat bs))"
  by (induction bs outcomes rule: list_induct2') auto

lemma failure_messages_length:
  "length (failure_messages k outcomes) = length (filter (\<lambda>outcome. outcome \<noteq> None) outcomes)"
  by (induction k outcomes rule: failure_messages.induct) auto


lemma prepare_indexed_chunks_length:
  "length embedding_results = length chunks \<Longrightarrow>
     length (prepare_indexed_chunks chunks embedding_results) = length chunks"
  by (simp add: prepare_indexed_chunks_def)

lemma index_chunks_embedding_failure:
  assumes "chunks \<noteq> []"
    and "generate_embeddings (qi_embedding_service ix) (map cc_content chunks) w = (Inl e, w1)"
  shows "index_chunks ix chunks w
       = (\<lparr>total_chunks = int (length chunks), indexed_chunks = 0,
            failed_chunks = int (length chunks), chapters_processed = [],
            errors = [''Embedding generation failed: '' @ str_error e]\<rparr>, w1)"
  using assms by (simp add: index_chunks_def)

lemma index_chunks_upserts:
  assumes "chunks \<noteq> []"
    and ge: "generate_embeddings (qi_embedding_service ix) (map cc_content chunks) w
               = (Inr embedding_results, w1)"
    and aa: "attempt_all (upsert_batch ix)
               (sub_batches UPSERT_BATCH_SIZE (prepare_indexed_chunks chunks embedding_results)) w1
               = (outcomes, w2)"
  shows "index_chunks ix chunks w
       = (\<lparr>total_chunks = int (length chunks),
            indexed_chunks = count_chunks False
               (sub_batches UPSERT_BATCH_SIZE (prepare_indexed_chunks chunks embedding_results))
               outcomes,
            failed_chunks = count_chunks True
               (sub_batches UPSERT_BATCH_SIZE (prepare_indexed_chunks chunks embedding_results))
               outcomes,
            chapters_processed =
              sort (remdups (map (\<lambda>(chunk, embedding_result). md_chapter_id (cc_metadata chunk))
                               (zip chunks embedding_results))),
            errors = failure_messages 0 outcomes\<rparr>, w2)"
proof -
  from aa have "attempt_all (upsert_batch ix)
      (sub_batches UPSERT_BATCH_SIZE (drop 0 (prepare_indexed_chunks chunks embedding_results))) w1
      = (outcomes, w2)"
    by simp
  from upsert_loop_attempt_all[OF this, of 0 0 "[]"]
  have "upsert_loop ix (prepare_indexed_chunks chunks embedding_results) 0 (0, 0, []) w1
      = ((count_chunks False
            (sub_batches UPSERT_BATCH_SIZE (prepare_indexed_chunks chunks embedding_results))
            outcomes,
          count_chunks True
            (sub_batches UPSERT_BATCH_SIZE (prepare_indexed_chunks chunks embedding_results))
            outcomes,
          failure_messages 0 outcomes), w2)"
    by simp
  with assms(1) ge show ?thesis
    by (simp add: index_chunks_def Let_def)
qed

text \<open>
  Claim C4. For a non-empty chunk list: when embedding generation raises, \<^verbatim>\<open>index_chunks\<close>
  returns zero indexed chunks, every chunk failed, no chapter and the one error message.
  Otherwise there is one indexed chunk for each chunk, the sub-batches of
  \<^verbatim>\<open>UPSERT_BATCH_SIZE\<close> cover them in order, and the result is the one obtained by
  attempting every sub-batch in turn, whatever the outcome of the earlier ones: the world is
  left as after all the attempts, each failing sub-batch counts its chunks as failed and
  adds one message, each other sub-batch counts its chunks as indexed, and indexed plus
  failed chunks are the total.
\<close>

theorem index_chunks_partial_failure:
  "chunks \<noteq> [] \<longrightarrow>
     (\<forall>e w1. generate_embeddings (qi_embedding_service ix) (map cc_content chunks) w = (Inl e, w1)
        \<longrightarrow> index_chunks ix chunks w
              = (\<lparr>total_chunks = int (length chunks), indexed_chunks = 0,
                   failed_chunks = int (length chunks), chapters_processed = [],
                   errors = [''Embedding generation failed: '' @ str_error e]\<rparr>, w1))
     \<and> (\<forall>embedding_results w1 outcomes w2.
          generate_embeddings (qi_embedding_service ix) (map cc_content chunks) w
            = (Inr embedding_results, w1)
          \<and> attempt_all (upsert_batch ix)
               (sub_batches UPSERT_BATCH_SIZE (prepare_indexed_chunks chunks embedding_results)) w1
            = (outcomes, w2)
        \<longrightarrow> concat (sub_batches UPSERT_BATCH_SIZE (prepare_indexed_chunks chunks embedding_results))
              = prepare_indexed_chunks chunks embedding_results
            \<and> length (prepare_indexed_chunks chunks embedding_results) = length chunks
            \<and> length outcomes
                = length (sub_batches UPSERT_BATCH_SIZE
                            (prepare_indexed_chunks chunks embedding_results))
            \<and> snd (index_chunks ix chunks w) = w2
            \<and> total_chunks (fst (index_chunks ix chunks w)) = int (length chunks)
            \<and> indexed_chunks (fst (index_chunks ix chunks w))
                = count_chunks False
                    (sub_batches UPSERT_BATCH_SIZE
                       (prepare_indexed_chunks chunks embedding_results)) outcomes
            \<and> failed_chunks (fst (index_chunks ix chunks w))
                = count_chunks True
                    (sub_batches UPSERT_BATCH_SIZE
                       (prepare_indexed_chunks chunks embedding_results)) outcomes
            \<and> errors (fst (index_chunks ix chunks w)) = failure_messages 0 outcomes
            \<and> length (errors (fst (index_chunks ix chunks w)))
                = length (filter (\<lambda>outcome. outcome \<noteq> None) outcomes)
            \<and> indexed_chunks (fst (index_chunks ix chunks w))
                + failed_chunks (fst (index_chunks ix chunks w))
                = total_chunks (fst (index_chunks ix chunks w)))"
proof (intro impI conjI allI)
  fix e w1
  assume "chunks \<noteq> []"
    and "generate_embeddings (qi_embedding_service ix) (map cc_content chunks) w = (Inl e, w1)"
  then show "index_chunks ix chunks w
              = (\<lparr>total_chunks = int (length chunks), indexed_chunks = 0,
                   failed_chunks = int (length chunks), chapters_processed = [],
                   errors = [''Embedding generation failed: '' @ str_error e]\<rparr>, w1)"
    by (rule index_chunks_embedding_failure)
next
  fix embedding_results w1 outcomes w2
  let ?indexed = "prepare_indexed_chunks chunks embedding_results"
  let ?batches = "sub_batches UPSERT_BATCH_SIZE ?indexed"
  assume ne: "chunks \<noteq> []"
    and h: "generate_embeddings (qi_embedding_service ix) (map cc_content chunks) w
            = (Inr embedding_results, w1)
          \<and> attempt_all (upsert_batch ix) ?batches w1 = (outcomes, w2)"
  from h have len: "length embedding_results = length chunks"
    by (auto dest: generate_embeddings_length)
  from h have lo: "length outcomes = length ?batches"
    by (auto dest: attempt_all_length)
  have cc: "concat ?batches = ?indexed"
    by (rule concat_sub_batches) (simp add: UPSERT_BATCH_SIZE_def)
  have li: "length ?indexed = length chunks"
    using len by (rule prepare_indexed_chunks_length)
  from h have ge: "generate_embeddings (qi_embedding_service ix) (map cc_content chunks) w
            = (Inr embedding_results, w1)"
    and aa: "attempt_all (upsert_batch ix) ?batches w1 = (outcomes, w2)"
    by blast+
  have eq: "index_chunks ix chunks w
       = (\<lparr>total_chunks = int (length chunks),
            indexed_chunks = count_chunks False ?batches outcomes,
            failed_chunks = count_chunks True ?batches outcomes,
            chapters_processed =
              sort (remdups (map (\<lambda>(chunk, embedding_result). md_chapter_id (cc_metadata chunk))
                               (zip chunks embedding_results))),
            errors = failure_messages 0 outcomes\<rparr>, w2)"
    by (rule index_chunks_upserts[OF ne ge aa])
  show "concat ?batches = ?indexed" by (rule cc)
  show "length ?indexed = length chunks" by (rule li)
  show "length outcomes = length ?batches" by (rule lo)
  show "snd (index_chunks ix chunks w) = w2" by (simp add: eq)
  show "total_chunks (fst (index_chunks ix chunks w)) = int (length chunks)" by (simp add: eq)
  show "indexed_chunks (fst (index_chunks ix chunks w)) = count_chunks False ?batches outcomes"
    by (simp add: eq)
  show "failed_chunks (fst (index_chunks ix chunks w)) = count_chunks True ?batches outcomes"
    by (simp add: eq)
  show "errors (fst (index_chunks ix chunks w)) = failure_messages 0 outcomes"
    by (simp add: eq)
  show "length (errors (fst (index_chunks ix chunks w)))
          = length (filter (\<lambda>outcome. outcome \<noteq> None) outcomes)"
    by (simp add: eq failure_messages_length)
  show "indexed_chunks (fst (index_chunks ix chunks w))
          + failed_chunks (fst (index_chunks ix chunks w))
          = total_chunks (fst (index_chunks ix chunks w))"
    using count_chunks_total[OF lo] cc li by (simp add: eq)
qed


lemma process_batch_loop_steady:
  "0 < n \<Longrightarrow> i + length texts \<le> length all_texts \<Longrightarrow>
     process_batch_loop
       \<lparr>resp_data = map (\<lambda>t. [1, 0]) all_texts, resp_prompt_tokens = int n,
        resp_total_tokens = int n\<rparr> n texts i
     = Inr (map steady_result texts)"
  by (induction texts arbitrary: i) (auto simp: steady_result_def)

lemma process_batch_with_retry_steady:
  "texts \<noteq> [] \<Longrightarrow>
     process_batch_with_retry (qi_embedding_service indexer_steady) texts w
       = (Inr (map steady_result texts), w)"
  by (simp add: process_batch_with_retry_def MAX_RETRIES_def upt_rec[of 0] process_batch_def
        indexer_steady_def steady_embeddings_def process_batch_loop_steady)

lemma embed_batches_steady:
  "[] \<notin> set batches \<Longrightarrow>
     embed_batches (qi_embedding_service indexer_steady) batches all_results w
       = (Inr (all_results @ map steady_result (concat batches)), w)"
  by (induction batches arbitrary: all_results) (auto simp: process_batch_with_retry_steady)

lemma generate_embeddings_steady:
  "texts \<noteq> [] \<Longrightarrow>
     generate_embeddings (qi_embedding_service indexer_steady) texts w
       = (Inr (map steady_result texts), w)"
proof -
  assume "texts \<noteq> []"
  moreover have "[] \<notin> set (create_batches texts)"
    unfolding create_batches_def by (rule create_batches_loop_nonempty) simp
  moreover have "concat (create_batches texts) = texts"
    by (simp add: create_batches_def create_batches_loop_concat)
  ultimately show ?thesis
    by (simp add: generate_embeddings_def embed_batches_steady)
qed

lemma generate_embeddings_refused:
  "texts \<noteq> [] \<Longrightarrow>
     generate_embeddings (qi_embedding_service indexer_refused) texts w
       = (Inl (OtherException ''connection refused''), w)"
proof -
  assume ne: "texts \<noteq> []"
  have "[] \<notin> set (create_batches texts)"
    unfolding create_batches_def by (rule create_batches_loop_nonempty) simp
  moreover have "concat (create_batches texts) = texts"
    by (simp add: create_batches_def create_batches_loop_concat)
  ultimately obtain b bs where "create_batches texts = b # bs"
    using ne by (cases "create_batches texts") auto
  then show ?thesis using ne
    by (simp add: generate_embeddings_def process_batch_with_retry_def MAX_RETRIES_def
          upt_rec[of 0] process_batch_def indexer_refused_def refusing_embeddings_def)
qed

lemma prepare_indexed_chunks_C:
  "prepare_indexed_chunks (replicate 150 chunk_C)
     (map steady_result (map cc_content (replicate 150 chunk_C))) = replicate 150 indexed_C"
  by (simp add: prepare_indexed_chunks_def steady_result_def chunk_C_def
        indexed_C_def)

lemma sub_batches_C:
  "sub_batches UPSERT_BATCH_SIZE (replicate 150 indexed_C)
     = [replicate 100 indexed_C, replicate 50 indexed_C]"
  by (simp add: sub_batches.simps UPSERT_BATCH_SIZE_def)

lemma attempt_all_C:
  "attempt_all (upsert_batch indexer_steady) [replicate 100 indexed_C, replicate 50 indexed_C] 0
     = ([Some (OtherException ''timeout''), None], 2)"
  by (simp add: upsert_batch_def upsert_vectors_def indexer_steady_def flaky_upsert_def)

text \<open>
  The indexing theorem at 150 chunks: once with a provider that refuses every embedding
  call, once with a provider that answers and a store whose first upsert fails and whose
  second succeeds.
\<close>

theorem index_chunks_partial_failure_witness:
  "replicate 150 chunk_C \<noteq> []
   \<and> index_chunks indexer_refused (replicate 150 chunk_C) 0
       = (\<lparr>total_chunks = 150, indexed_chunks = 0, failed_chunks = 150, chapters_processed = [],
            errors = [''Embedding generation failed: connection refused'']\<rparr>, 0)
   \<and> snd (index_chunks indexer_steady (replicate 150 chunk_C) 0) = 2
   \<and> total_chunks (fst (index_chunks indexer_steady (replicate 150 chunk_C) 0)) = 150
   \<and> indexed_chunks (fst (index_chunks indexer_steady (replicate 150 chunk_C) 0)) = 50
   \<and> failed_chunks (fst (index_chunks indexer_steady (replicate 150 chunk_C) 0)) = 100
   \<and> errors (fst (index_chunks indexer_steady (replicate 150 chunk_C) 0))
       = [''Failed to upsert batch 1: timeout'']"
proof -
  have ne: "replicate 150 chunk_C \<noteq> []" by simp
  have te: "map cc_content (replicate 150 chunk_C) \<noteq> []" by simp
  note ref = generate_embeddings_refused[OF te, of 0]
  note ste = generate_embeddings_steady[OF te, of 0]
  have aa: "attempt_all (upsert_batch indexer_steady)
      (sub_batches UPSERT_BATCH_SIZE
         (prepare_indexed_chunks (replicate 150 chunk_C)
            (map steady_result (map cc_content (replicate 150 chunk_C))))) 0
      = ([Some (OtherException ''timeout''), None], 2)"
    unfolding prepare_indexed_chunks_C sub_batches_C by (rule attempt_all_C)
  from index_chunks_partial_failure[of "replicate 150 chunk_C" indexer_refused 0] ne ref
  have 1: "index_chunks indexer_refused (replicate 150 chunk_C) 0
       = (\<lparr>total_chunks = int (length (replicate 150 chunk_C)), indexed_chunks = 0,
            failed_chunks = int (length (replicate 150 chunk_C)), chapters_processed = [],
            errors = [''Embedding generation failed: ''
                        @ str_error (OtherException ''connection refused'')]\<rparr>, 0)"
    by blast
  from index_chunks_partial_failure[of "replicate 150 chunk_C" indexer_steady 0] ne ste aa
  have 2: "snd (index_chunks indexer_steady (replicate 150 chunk_C) 0) = 2
     \<and> total_chunks (fst (index_chunks indexer_steady (replicate 150 chunk_C) 0))
         = int (length (replicate 150 chunk_C))
     \<and> indexed_chunks (fst (index_chunks indexer_steady (replicate 150 chunk_C) 0))
         = count_chunks False
             (sub_batches UPSERT_BATCH_SIZE
                (prepare_indexed_chunks (replicate 150 chunk_C)
                   (map steady_result (map cc_content (replicate 150 chunk_C)))))
             [Some (OtherException ''timeout''), None]
     \<and> failed_chunks (fst (index_chunks indexer_steady (replicate 150 chunk_C) 0))
         = count_chunks True
             (sub_batches UPSERT_BATCH_SIZE
                (prepare_indexed_chunks (replicate 150 chunk_C)
                   (map steady_result (map cc_content (replicate 150 chunk_C)))))
             [Some (OtherException ''timeout''), None]
     \<and> errors (fst (index_chunks indexer_steady (replicate 150 chunk_C) 0))
         = failure_messages 0 [Some (OtherException ''timeout''), None]"
    by blast
  from 1 have r1: "index_chunks indexer_refused (replicate 150 chunk_C) 0
       = (\<lparr>total_chunks = 150, indexed_chunks = 0, failed_chunks = 150, chapters_processed = [],
            errors = [''Embedding generation failed: connection refused'']\<rparr>, 0)"
    by simp
  from 2 have r2: "snd (index_chunks indexer_steady (replicate 150 chunk_C) 0) = 2
     \<and> total_chunks (fst (index_chunks indexer_steady (replicate 150 chunk_C) 0)) = 150
     \<and> indexed_chunks (fst (index_chunks indexer_steady (replicate 150 chunk_C) 0)) = 50
     \<and> failed_chunks (fst (index_chunks indexer_steady (replicate 150 chunk_C) 0)) = 100
     \<and> errors (fst (index_chunks indexer_steady (replicate 150 chunk_C) 0))
         = [''Failed to upsert batch 1: timeout'']"
    unfolding prepare_indexed_chunks_C sub_batches_C
    by (simp add: str_nat.simps digit_char_def)
  from ne r1 r2 show ?thesis by blast
qed

section \<open>Properties of the chunker\<close>

lemma generate_chunk_id_eq:
  "generate_chunk_id uuid5 chapter_id section_title position
     = uuid5 ''6ba7b810-9dad-11d1-80b4-00c04fd430c8''
         (chapter_id @ '':'' @ section_title @ '':'' @ str_int position)"
  by (simp add: generate_chunk_id_def chunk_id_namespace_def)

lemma chunk_section_loop_ids:
  assumes "md_section_title section_metadata = section_title"
    and "position = int (length chunks)"
    and "map cc_id chunks = map (id_from_fields uuid5 (md_chapter_id (pc_metadata pc))) chunks"
    and "map cc_position chunks = map int [0..<length chunks]"
    and "chunk_section_loop uuid5 ck pc section_title section_metadata texts chunks position
           = (chunks', position')"
  shows "position' = int (length chunks')
       \<and> map cc_id chunks' = map (id_from_fields uuid5 (md_chapter_id (pc_metadata pc))) chunks'
       \<and> map cc_position chunks' = map int [0..<length chunks']"
  using assms(2-)
proof (induction texts arbitrary: chunks position)
  case Nil
  then show ?case by auto
next
  case (Cons t rest)
  show ?case
  proof (cases "chunker_estimate_tokens t < min_chunk_size ck")
    case True
    with Cons.prems(4) have
      "chunk_section_loop uuid5 ck pc section_title section_metadata rest chunks position
         = (chunks', position')"
      by simp
    from Cons.IH[OF Cons.prems(1-3) this] show ?thesis .
  next
    case False
    let ?c = "\<lparr>cc_id = generate_chunk_id uuid5 (md_chapter_id (pc_metadata pc)) section_title position,
               cc_content = t, cc_metadata = section_metadata, cc_position = position,
               cc_token_count = chunker_estimate_tokens t\<rparr>"
    from False Cons.prems(4) have step:
      "chunk_section_loop uuid5 ck pc section_title section_metadata rest (chunks @ [?c])
         (position + 1) = (chunks', position')"
      by (simp add: Let_def)
    have a: "position + 1 = int (length (chunks @ [?c]))"
      using Cons.prems(1) by simp
    have b: "map cc_id (chunks @ [?c])
        = map (id_from_fields uuid5 (md_chapter_id (pc_metadata pc))) (chunks @ [?c])"
      using Cons.prems(2) assms(1) by (simp add: id_from_fields_def generate_chunk_id_eq)
    have c: "map cc_position (chunks @ [?c]) = map int [0..<length (chunks @ [?c])]"
      using Cons.prems(1,3) by simp
    from Cons.IH[OF a b c step] show ?thesis .
  qed
qed

lemma chunk_content_loop_ids:
  assumes "position = int (length chunks)"
    and "map cc_id chunks = map (id_from_fields uuid5 (md_chapter_id (pc_metadata pc))) chunks"
    and "map cc_position chunks = map int [0..<length chunks]"
  shows "map cc_id (chunk_content_loop uuid5 ck pc sections chunks position)
           = map (id_from_fields uuid5 (md_chapter_id (pc_metadata pc)))
               (chunk_content_loop uuid5 ck pc sections chunks position)
       \<and> map cc_position (chunk_content_loop uuid5 ck pc sections chunks position)
           = map int [0..<length (chunk_content_loop uuid5 ck pc sections chunks position)]"
  using assms
proof (induction sections arbitrary: chunks position)
  case Nil
  then show ?case by simp
next
  case (Cons sec rest)
  obtain section_title section_content where s: "sec = (section_title, section_content)"
    by (cases sec)
  let ?md = "\<lparr>md_chapter_id = md_chapter_id (pc_metadata pc),
             md_title = md_title (pc_metadata pc),
             md_section_title = section_title,
             md_page_url = md_page_url (pc_metadata pc),
             md_sidebar_position = md_sidebar_position (pc_metadata pc)\<rparr>"
  obtain chunks' position' where inner:
    "chunk_section_loop uuid5 ck pc section_title ?md (split_text ck section_content) chunks
       position = (chunks', position')"
    by (cases "chunk_section_loop uuid5 ck pc section_title ?md (split_text ck section_content)
                 chunks position")
  have "md_section_title ?md = section_title" by simp
  from chunk_section_loop_ids[OF this Cons.prems inner]
  have a: "position' = int (length chunks')"
    and b: "map cc_id chunks' = map (id_from_fields uuid5 (md_chapter_id (pc_metadata pc))) chunks'"
    and c: "map cc_position chunks' = map int [0..<length chunks']"
    by blast+
  have "chunk_content_loop uuid5 ck pc (sec # rest) chunks position
      = chunk_content_loop uuid5 ck pc rest chunks' position'"
    using s inner by (simp add: Let_def)
  with Cons.IH[OF a b c] show ?case by simp
qed

lemma chunk_section_loop_same_ids:
  assumes "md_chapter_id (pc_metadata pc) = md_chapter_id (pc_metadata pc')"
    and "map cc_id chunks = map cc_id chunks2"
  shows "map cc_id (fst (chunk_section_loop uuid5 ck pc section_title md texts chunks position))
           = map cc_id (fst (chunk_section_loop uuid5 ck pc' section_title md' texts chunks2 position))
       \<and> snd (chunk_section_loop uuid5 ck pc section_title md texts chunks position)
           = snd (chunk_section_loop uuid5 ck pc' section_title md' texts chunks2 position)"
  using assms(2)
proof (induction texts arbitrary: chunks chunks2 position)
  case Nil
  then show ?case by simp
next
  case (Cons t rest)
  show ?case
  proof (cases "chunker_estimate_tokens t < min_chunk_size ck")
    case True
    with Cons.IH[OF Cons.prems] show ?thesis by simp
  next
    case False
    let ?c = "\<lambda>p m. \<lparr>cc_id = generate_chunk_id uuid5 (md_chapter_id (pc_metadata p)) section_title position,
               cc_content = t, cc_metadata = m, cc_position = position,
               cc_token_count = chunker_estimate_tokens t\<rparr>"
    have "map cc_id (chunks @ [?c pc md]) = map cc_id (chunks2 @ [?c pc' md'])"
      using Cons.prems assms(1) by simp
    from Cons.IH[OF this, of "position + 1"] False show ?thesis
      by (simp add: Let_def)
  qed
qed

lemma chunk_content_loop_same_ids:
  assumes "md_chapter_id (pc_metadata pc) = md_chapter_id (pc_metadata pc')"
    and "map cc_id chunks = map cc_id chunks2"
  shows "map cc_id (chunk_content_loop uuid5 ck pc sections chunks position)
           = map cc_id (chunk_content_loop uuid5 ck pc' sections chunks2 position)"
  using assms(2)
proof (induction sections arbitrary: chunks chunks2 position)
  case Nil
  then show ?case by simp
next
  case (Cons sec rest)
  obtain section_title section_content where s: "sec = (section_title, section_content)"
    by (cases sec)
  let ?md = "\<lambda>p. \<lparr>md_chapter_id = md_chapter_id (pc_metadata p),
             md_title = md_title (pc_metadata p),
             md_section_title = section_title,
             md_page_url = md_page_url (pc_metadata p),
             md_sidebar_position = md_sidebar_position (pc_metadata p)\<rparr>"
  let ?r = "chunk_section_loop uuid5 ck pc section_title (?md pc) (split_text ck section_content)
              chunks position"
  let ?r' = "chunk_section_loop uuid5 ck pc' section_title (?md pc') (split_text ck section_content)
              chunks2 position"
  from chunk_section_loop_same_ids[OF assms(1) Cons.prems]
  have ids: "map cc_id (fst ?r) = map cc_id (fst ?r')" and pos: "snd ?r = snd ?r'"
    by blast+
  have 1: "chunk_content_loop uuid5 ck pc (sec # rest) chunks position
      = chunk_content_loop uuid5 ck pc rest (fst ?r) (snd ?r)"
    using s by (simp add: Let_def split: prod.splits)
  have 2: "chunk_content_loop uuid5 ck pc' (sec # rest) chunks2 position
      = chunk_content_loop uuid5 ck pc' rest (fst ?r') (snd ?r')"
    using s by (simp add: Let_def split: prod.splits)
  from Cons.IH[OF ids, of "snd ?r"] pos show ?case
    unfolding 1 2 by simp
qed

text \<open>
  Claim C3. The identifier of a chunk is the name-based UUID of the string
  \<^verbatim>\<open>chapter_id:section_title:position\<close> under the namespace
  \<^verbatim>\<open>6ba7b810-9dad-11d1-80b4-00c04fd430c8\<close>. Every chunk that \<^verbatim>\<open>chunk_content\<close> produces
  carries the identifier of its own chapter, section title and position, and the positions
  count up from 0. The sequence of identifiers is a function of the chapter identifier and
  the sections alone, so chunking the same parsed content again gives the same identifiers,
  chunk for chunk.
\<close>

theorem chunk_ids_deterministic:
  "generate_chunk_id uuid5 chapter_id section_title position
     = uuid5 ''6ba7b810-9dad-11d1-80b4-00c04fd430c8''
         (chapter_id @ '':'' @ section_title @ '':'' @ str_int position)
   \<and> (\<forall>c \<in> set (chunk_content uuid5 ck pc).
         cc_id c = uuid5 ''6ba7b810-9dad-11d1-80b4-00c04fd430c8''
                     (md_chapter_id (pc_metadata pc) @ '':'' @ md_section_title (cc_metadata c)
                        @ '':'' @ str_int (cc_position c)))
   \<and> map cc_position (chunk_content uuid5 ck pc)
       = map int [0..<length (chunk_content uuid5 ck pc)]
   \<and> (md_chapter_id (pc_metadata pc) = md_chapter_id (pc_metadata pc')
        \<and> pc_sections pc = pc_sections pc'
      \<longrightarrow> map cc_id (chunk_content uuid5 ck pc) = map cc_id (chunk_content uuid5 ck pc'))"
proof (intro conjI ballI impI)
  show "generate_chunk_id uuid5 chapter_id section_title position
     = uuid5 ''6ba7b810-9dad-11d1-80b4-00c04fd430c8''
         (chapter_id @ '':'' @ section_title @ '':'' @ str_int position)"
    by (rule generate_chunk_id_eq)
next
  have ids: "map cc_id (chunk_content uuid5 ck pc)
      = map (id_from_fields uuid5 (md_chapter_id (pc_metadata pc))) (chunk_content uuid5 ck pc)"
    and pos: "map cc_position (chunk_content uuid5 ck pc)
      = map int [0..<length (chunk_content uuid5 ck pc)]"
    unfolding chunk_content_def
    using chunk_content_loop_ids[of 0 "[]" uuid5 pc ck "pc_sections pc"] by simp_all
  show "map cc_position (chunk_content uuid5 ck pc)
       = map int [0..<length (chunk_content uuid5 ck pc)]"
    by (rule pos)
  fix c assume "c \<in> set (chunk_content uuid5 ck pc)"
  with ids have "cc_id c = id_from_fields uuid5 (md_chapter_id (pc_metadata pc)) c"
    by simp
  then show "cc_id c = uuid5 ''6ba7b810-9dad-11d1-80b4-00c04fd430c8''
                     (md_chapter_id (pc_metadata pc) @ '':'' @ md_section_title (cc_metadata c)
                        @ '':'' @ str_int (cc_position c))"
    by (simp add: id_from_fields_def)
next
  assume "md_chapter_id (pc_metadata pc) = md_chapter_id (pc_metadata pc')
        \<and> pc_sections pc = pc_sections pc'"
  then show "map cc_id (chunk_content uuid5 ck pc) = map cc_id (chunk_content uuid5 ck pc')"
    unfolding chunk_content_def
    using chunk_content_loop_same_ids[of pc pc' "[]" "[]" uuid5 ck "pc_sections pc" 0] by simp
qed

text \<open>The chunks of a small document of three sections, the second one blank.\<close>

lemma chunk_content_D:
  "chunk_content tag_uuid5 chunker_K content_D =
    [\<lparr>cc_id = ''6ba7b810-9dad-11d1-80b4-00c04fd430c8#sensors:Introduction:0'',
     cc_content = ''Robots sense. They act!'',
     cc_metadata =
       \<lparr>md_chapter_id = ''sensors'', md_title = ''Sensors'',
          md_section_title = ''Introduction'', md_page_url = ''/sensors'',
          md_sidebar_position = Some 3\<rparr>,
     cc_position = 0, cc_token_count = 5\<rparr>,
  \<lparr>cc_id = ''6ba7b810-9dad-11d1-80b4-00c04fd430c8#sensors:Introduction:1'',
     cc_content = ''Lidar measures range.'',
     cc_metadata =
       \<lparr>md_chapter_id = ''sensors'', md_title = ''Sensors'',
          md_section_title = ''Introduction'', md_page_url = ''/sensors'',
          md_sidebar_position = Some 3\<rparr>,
     cc_position = 1, cc_token_count = 5\<rparr>,
  \<lparr>cc_id = ''6ba7b810-9dad-11d1-80b4-00c04fd430c8#sensors:Depth:2'',
     cc_content = ''Stereo pairs.'',
     cc_metadata =
       \<lparr>md_chapter_id = ''sensors'', md_title = ''Sensors'',
          md_section_title = ''Depth'', md_page_url = ''/sensors'',
          md_sidebar_position = Some 3\<rparr>,
     cc_position = 2, cc_token_count = 3\<rparr>]"
  by code_simp


text \<open>
  The identifier theorem at that document and at a second parse of it that differs in
  title and page address only.
\<close>

theorem chunk_ids_deterministic_witness:
  "md_chapter_id (pc_metadata content_D) = md_chapter_id (pc_metadata content_D')
   \<and> pc_sections content_D = pc_sections content_D'
   \<and> map cc_id (chunk_content tag_uuid5 chunker_K content_D)
       = map cc_id (chunk_content tag_uuid5 chunker_K content_D')
   \<and> chunk_content tag_uuid5 chunker_K content_D ! 2 \<in> set (chunk_content tag_uuid5 chunker_K content_D)
   \<and> cc_id (chunk_content tag_uuid5 chunker_K content_D ! 2)
       = tag_uuid5 ''6ba7b810-9dad-11d1-80b4-00c04fd430c8'' ''sensors:Depth:2''"
proof -
  have h: "md_chapter_id (pc_metadata content_D) = md_chapter_id (pc_metadata content_D')
     \<and> pc_sections content_D = pc_sections content_D'"
    by (simp add: content_D_def content_D'_def)
  have m: "chunk_content tag_uuid5 chunker_K content_D ! 2
             \<in> set (chunk_content tag_uuid5 chunker_K content_D)"
    by (simp add: chunk_content_D)
  note t = chunk_ids_deterministic[of tag_uuid5 "''sensors''" "''Depth''" 2 chunker_K content_D
      content_D']
  note ids = t[THEN conjunct2, THEN conjunct1]
  note det = t[THEN conjunct2, THEN conjunct2, THEN conjunct2]
  have same: "map cc_id (chunk_content tag_uuid5 chunker_K content_D)
       = map cc_id (chunk_content tag_uuid5 chunker_K content_D')"
    by (rule det[THEN mp, OF h])
  have "cc_id (chunk_content tag_uuid5 chunker_K content_D ! 2)
     = tag_uuid5 ''6ba7b810-9dad-11d1-80b4-00c04fd430c8''
         (md_chapter_id (pc_metadata content_D) @ '':''
            @ md_section_title (cc_metadata (chunk_content tag_uuid5 chunker_K content_D ! 2))
            @ '':'' @ str_int (cc_position (chunk_content tag_uuid5 chunker_K content_D ! 2)))"
    by (rule ids[THEN bspec, OF m])
  then have "cc_id (chunk_content tag_uuid5 chunker_K content_D ! 2)
     = tag_uuid5 ''6ba7b810-9dad-11d1-80b4-00c04fd430c8''
         (md_chapter_id (pc_metadata content_D) @ '':'' @ ''Depth'' @ '':'' @ str_int 2)"
    unfolding chunk_content_D by simp
  then have third: "cc_id (chunk_content tag_uuid5 chunker_K content_D ! 2)
       = tag_uuid5 ''6ba7b810-9dad-11d1-80b4-00c04fd430c8'' ''sensors:Depth:2''"
    by (simp add: content_D_def str_int_def str_nat.simps digit_char_def)
  show ?thesis
    by (intro conjI) (use h same m third in simp_all)
qed



end
